theory Spec2Isabelle
  imports
    Complex_Main
    "HOL-Library.Word"
    "HOL-Library.AList"
    "HOL-Library.Sublist"
    "HOL-Library.Multiset"
begin

unbundle bit_operations_syntax

section \<open>Model catalogue resolution: the data of \<open>shared/aiModels.ts\<close>\<close>

text \<open>
  The theory embeds \<open>shared/aiModels.ts\<close> (provider tables and
  \<open>sanitizeModelSelection\<close>) and \<open>electron/ModelFetchService.ts\<close> (the three-tier
  resolution with its two caches).

  Conventions of the embedding.
  \<^item> A JavaScript string is a \<open>string\<close>; a \<open>char\<close> stands for one UTF-16 code unit
    below 256, which covers every literal of the source.
  \<^item> An optional field (\<open>f?: T\<close>) is a \<open>T option\<close>; \<open>None\<close> is \<open>undefined\<close>.
  \<^item> Record fields carry a short prefix (\<open>fm_\<close>, \<open>pr_\<close>, \<open>md_\<close>, \<open>ce_\<close>,
    \<open>r_\<close>, \<open>opt_\<close>) because several interfaces of the source share the field names \<open>id\<close>,
    \<open>name\<close>, \<open>models\<close> and \<open>source\<close>.
  \<^item> Token counts and timestamps are integers; prices are rationals. The code copies
    these numbers and tests them against zero, it never computes with them.
\<close>

datatype APIProvider = OpenAI | Gemini | Anthropic | AzureOpenAI | OpenRouter

datatype ModelCategoryKey = ExtractionModel | SolutionModel | DebuggingModel | AnswerModel

text \<open>The string value of each member of the union type \<open>APIProvider\<close>.\<close>

fun providerTag :: "APIProvider \<Rightarrow> string" where
  "providerTag OpenAI = ''openai''"
| "providerTag Gemini = ''gemini''"
| "providerTag Anthropic = ''anthropic''"
| "providerTag AzureOpenAI = ''azure-openai''"
| "providerTag OpenRouter = ''openrouter''"

record ModelPricing =
  pr_input :: rat
  pr_output :: rat
  pr_cacheRead :: "rat option"
  pr_cacheWrite :: "rat option"

record Capabilities =
  chat :: "bool option"
  vision :: "bool option"
  audio :: "bool option"
  embedding :: "bool option"

record FetchedModel =
  fm_id :: string
  fm_name :: string
  fm_provider :: APIProvider
  fm_pricing :: "ModelPricing option"
  fm_contextLength :: "int option"
  fm_capabilities :: "Capabilities option"

fun DEFAULT_MODELS :: "APIProvider \<Rightarrow> ModelCategoryKey \<Rightarrow> string" where
  "DEFAULT_MODELS OpenAI ExtractionModel = ''gpt-4o''"
| "DEFAULT_MODELS OpenAI SolutionModel = ''gpt-4o''"
| "DEFAULT_MODELS OpenAI DebuggingModel = ''gpt-4o''"
| "DEFAULT_MODELS OpenAI AnswerModel = ''gpt-4o-mini''"
| "DEFAULT_MODELS Gemini _ = ''gemini-3-flash-preview''"
| "DEFAULT_MODELS Anthropic _ = ''claude-3-7-sonnet-20250219''"
| "DEFAULT_MODELS AzureOpenAI ExtractionModel = ''gpt-4o''"
| "DEFAULT_MODELS AzureOpenAI SolutionModel = ''gpt-4o''"
| "DEFAULT_MODELS AzureOpenAI DebuggingModel = ''gpt-4o''"
| "DEFAULT_MODELS AzureOpenAI AnswerModel = ''gpt-4o-mini''"
| "DEFAULT_MODELS OpenRouter ExtractionModel = ''openai/gpt-4o''"
| "DEFAULT_MODELS OpenRouter SolutionModel = ''openai/gpt-4o''"
| "DEFAULT_MODELS OpenRouter DebuggingModel = ''openai/gpt-4o''"
| "DEFAULT_MODELS OpenRouter AnswerModel = ''openai/gpt-4o-mini''"

fun ALLOWED_MODELS :: "APIProvider \<Rightarrow> string list" where
  "ALLOWED_MODELS OpenAI = [''gpt-4o'', ''gpt-4o-mini'']"
| "ALLOWED_MODELS Gemini =
     [''gemini-3-pro-preview'', ''gemini-3-flash-preview'', ''gemini-3-pro-image-preview'',
      ''gemini-1.5-pro'', ''gemini-1.5-flash'', ''gemini-2.0-flash-exp'']"
| "ALLOWED_MODELS Anthropic =
     [''claude-3-7-sonnet-20250219'', ''claude-3-5-sonnet-20241022'', ''claude-3-opus-20240229'']"
| "ALLOWED_MODELS AzureOpenAI = [''gpt-4o'', ''gpt-4o-mini'', ''gpt-4'', ''gpt-35-turbo'']"
| "ALLOWED_MODELS OpenRouter =
     [''openai/gpt-4o'', ''openai/gpt-4o-mini'', ''anthropic/claude-3.5-sonnet'',
      ''anthropic/claude-3-7-sonnet'', ''google/gemini-pro-1.5'', ''google/gemini-flash-1.5'']"

subsection \<open>String helpers of the host language\<close>

text \<open>
  \<open>String.prototype.trim\<close> strips white space and line terminators from both ends; below
  code unit 256 these are TAB, LF, VT, FF, CR, SPACE and NO-BREAK SPACE.
\<close>

definition isWhiteSpace :: "char \<Rightarrow> bool" where
  "isWhiteSpace c = (of_char c \<in> {9, 10, 11, 12, 13, 32, 160 :: nat})"

definition trim :: "string \<Rightarrow> string" where
  "trim s = rev (dropWhile isWhiteSpace (rev (dropWhile isWhiteSpace s)))"

text \<open>\<open>s.includes(sub)\<close>: \<open>sub\<close> occurs in \<open>s\<close> as a contiguous substring.\<close>

fun str_includes :: "string \<Rightarrow> string \<Rightarrow> bool" where
  "str_includes [] sub = (sub = [])"
| "str_includes (c # cs) sub = (prefix sub (c # cs) \<or> str_includes cs sub)"

section \<open>\<open>sanitizeModelSelection\<close>\<close>

text \<open>
  The optional \<open>dynamicAllowList\<close> is a \<open>string list option\<close>. The guards
  \<open>allowed &&\<close> and \<open>DEFAULT_MODELS[provider]?.\<close> of the source protect against a provider
  outside the union type; on the five providers both tables are defined, so the model
  reads them directly. The final \<open>return model\<close> is kept as the branch for an empty
  default. The \<open>console.warn\<close> is not modelled.
\<close>

definition sanitizeModelSelection ::
  "string \<Rightarrow> APIProvider \<Rightarrow> ModelCategoryKey \<Rightarrow> string list option \<Rightarrow> string" where
  "sanitizeModelSelection model provider category dynamicAllowList =
     (if (case dynamicAllowList of None \<Rightarrow> False
          | Some dyn \<Rightarrow> dyn \<noteq> [] \<and> model \<in> set dyn)
      then model
      else if (provider = AzureOpenAI \<or> provider = OpenRouter) \<and> trim model \<noteq> []
      then model
      else if model \<in> set (ALLOWED_MODELS provider)
      then model
      else let fallback = DEFAULT_MODELS provider category
           in if fallback \<noteq> [] then fallback else model)"

section \<open>\<open>ModelFetchService.ts\<close>: data\<close>

datatype Source = Api | ModelsDev | Static

record ModelFetchResult =
  r_success :: bool
  r_models :: "FetchedModel list"
  r_error :: "string option"
  r_cachedAt :: "int option"
  r_source :: "Source option"

record ModelFetchOptions =
  opt_endpoint :: "string option"
  opt_apiVersion :: "string option"
  opt_forceRefresh :: "bool option"

record CacheEntry =
  ce_models :: "FetchedModel list"
  ce_timestamp :: int
  ce_source :: Source

text \<open>
  The models.dev response types. The fields \<open>family\<close>, \<open>attachment\<close>, \<open>reasoning\<close> and
  \<open>tool_call\<close> of \<open>ModelsDevModel\<close> and \<open>id\<close> of \<open>ModelsDevProvider\<close> are never read by
  the service and are left out. A \<open>Record<string, T>\<close> is an association list in the
  order \<open>Object.values\<close> enumerates it. Its own keys are read with \<open>map_of\<close>; the
  read \<open>catalog[model.id]\<close>, whose key comes from outside, also sees the properties
  inherited from \<open>Object.prototype\<close> (\<open>readProperty\<close> below).
\<close>

record ModelsDevCost =
  cost_input :: rat
  cost_output :: rat
  cache_read :: "rat option"
  cache_write :: "rat option"

record ModelsDevLimit =
  limit_context :: int
  limit_output :: int

record ModelsDevModalities =
  mod_input :: "string list"
  mod_output :: "string list"

record ModelsDevModel =
  md_id :: string
  md_name :: string
  md_cost :: ModelsDevCost
  md_limit :: ModelsDevLimit
  md_modalities :: "ModelsDevModalities option"
  md_status :: "string option"

record ModelsDevProvider =
  prov_name :: string
  prov_models :: "(string \<times> ModelsDevModel) list"

type_synonym ModelsDevData = "(string \<times> ModelsDevProvider) list"

record ModelsDevCache =
  data :: "ModelsDevData option"
  timestamp :: int
  etag :: "string option"

text \<open>
  The two private fields of the class. \<open>cache\<close> is a JavaScript \<open>Map\<close>: an association
  list in insertion order, written with \<open>AList.update\<close> (replace in place, or append).
\<close>

record ModelFetchService =
  cache :: "(string \<times> CacheEntry) list"
  modelsDevCache :: ModelsDevCache

definition initialService :: ModelFetchService where
  "initialService =
     \<lparr>cache = [], modelsDevCache = \<lparr>data = None, timestamp = 0, etag = None\<rparr>\<rparr>"

definition CACHE_TTL :: int where
  "CACHE_TTL = 5 * 60 * 1000"

definition MODELS_DEV_CACHE_TTL :: int where
  "MODELS_DEV_CACHE_TTL = 60 * 60 * 1000"

fun PROVIDER_TO_MODELS_DEV :: "APIProvider \<Rightarrow> string" where
  "PROVIDER_TO_MODELS_DEV OpenAI = ''openai''"
| "PROVIDER_TO_MODELS_DEV Gemini = ''google''"
| "PROVIDER_TO_MODELS_DEV Anthropic = ''anthropic''"
| "PROVIDER_TO_MODELS_DEV AzureOpenAI = ''azure''"
| "PROVIDER_TO_MODELS_DEV OpenRouter = []"

subsection \<open>The outside world\<close>

text \<open>
  Network calls and the clock are inputs. A call returns, next to its result and the new
  service state, the list of network requests it issued, in order.
  \<^item> \<open>CatalogGet h\<close> is the GET of \<open>https://models.dev/api.json\<close> with the
    \<open>If-None-Match\<close> header \<open>h\<close>.
  \<^item> \<open>ProviderList p\<close> is the model listing request of provider \<open>p\<close>.
  \<^item> The catalogue answers \<open>200\<close> with a body and an optional \<open>etag\<close> header, or
    \<open>304\<close>, or the request fails (transport error, timeout, or any other status, which
    \<open>validateStatus\<close> turns into a rejection).
  \<^item> \<open>env_providerReply\<close> is the outcome of the provider's fetcher once its request has
    been made: the normalised model list, or the message of the error it throws.
  \<^item> \<open>env_now\<close> is \<open>Date.now()\<close> in the synchronous prefix of a call,
    \<open>env_catalogTime\<close> when the catalogue reply is handled, \<open>env_storeTime\<close> when the
    result cache is written. No order between them is assumed.
  \<^item> \<open>env_errorMessage\<close> is the message the engine gives the \<open>TypeError\<close> of a property
    read on \<open>undefined\<close>.
\<close>

datatype Request = CatalogGet "string option" | ProviderList APIProvider

datatype CatalogReply =
  Status200 ModelsDevData "string option"
| Status304
| TransportFailure string

record Env =
  env_now :: int
  env_catalogReply :: CatalogReply
  env_catalogTime :: int
  env_providerReply :: "string + FetchedModel list"
  env_storeTime :: int
  env_errorMessage :: string

subsection \<open>\<open>Array.prototype.sort\<close> and \<open>hashKey\<close>\<close>

text \<open>
  \<open>Array.prototype.sort\<close> is stable. For a comparator that is a total preorder its result
  is the one stable sorted arrangement, which insertion from the right computes. The
  comparator of the source is \<open>String.prototype.localeCompare\<close>, the collation of the
  host's locale; it is a parameter \<open>cmp\<close> of every function that sorts.
\<close>

fun insertBy :: "('a \<Rightarrow> 'a \<Rightarrow> int) \<Rightarrow> 'a \<Rightarrow> 'a list \<Rightarrow> 'a list" where
  "insertBy cmp x [] = [x]"
| "insertBy cmp x (y # ys) = (if cmp x y \<le> 0 then x # y # ys else y # insertBy cmp x ys)"

fun sortBy :: "('a \<Rightarrow> 'a \<Rightarrow> int) \<Rightarrow> 'a list \<Rightarrow> 'a list" where
  "sortBy cmp [] = []"
| "sortBy cmp (x # xs) = insertBy cmp x (sortBy cmp xs)"

definition consistentComparator :: "('a \<Rightarrow> 'a \<Rightarrow> int) \<Rightarrow> bool" where
  "consistentComparator cmp \<longleftrightarrow>
     (\<forall>a b. cmp a b \<le> 0 \<or> cmp b a \<le> 0) \<and>
     (\<forall>a b c. cmp a b \<le> 0 \<and> cmp b c \<le> 0 \<longrightarrow> cmp a c \<le> 0)"

text \<open>
  \<open>hashKey\<close>: \<open>hash = ((hash << 5) - hash) + char; hash |= 0\<close> over the code units, that is
  arithmetic modulo \<open>2^32\<close> read as a signed integer, printed by \<open>toString(36)\<close>.
\<close>

definition digit36 :: "nat \<Rightarrow> char" where
  "digit36 d = ''0123456789abcdefghijklmnopqrstuvwxyz'' ! d"

function digits36 :: "int \<Rightarrow> string" where
  "digits36 n =
     (if n < 36 then [digit36 (nat n)] else digits36 (n div 36) @ [digit36 (nat (n mod 36))])"
  by pat_completeness auto

termination
  by (relation "measure nat") auto

declare digits36.simps [simp del]

definition toString36 :: "int \<Rightarrow> string" where
  "toString36 i = (if i < 0 then CHR ''-'' # digits36 (- i) else digits36 i)"

definition hashStep :: "32 word \<Rightarrow> char \<Rightarrow> 32 word" where
  "hashStep hash c = (push_bit 5 hash - hash) + of_nat (of_char c)"

definition hashKey :: "string \<Rightarrow> string" where
  "hashKey key = toString36 (sint (foldl hashStep 0 key))"

definition cacheKey :: "APIProvider \<Rightarrow> string \<Rightarrow> string" where
  "cacheKey provider apiKey = providerTag provider @ '':'' @ hashKey apiKey"

section \<open>\<open>ModelFetchService.ts\<close>: operations\<close>

subsection \<open>\<open>ensureModelsDevData\<close>\<close>

text \<open>
  \<open>x || null\<close> on an optional string: an absent or empty string gives \<open>null\<close>. The same
  truthiness test guards the \<open>If-None-Match\<close> header.
\<close>

definition truthyString :: "string option \<Rightarrow> string option" where
  "truthyString x = (case x of None \<Rightarrow> None | Some e \<Rightarrow> if e \<noteq> [] then Some e else None)"

definition ensureModelsDevData ::
  "int \<Rightarrow> CatalogReply \<Rightarrow> int \<Rightarrow> ModelFetchService \<Rightarrow> ModelFetchService \<times> Request list" where
  "ensureModelsDevData now reply replyTime s =
     (let mdc = modelsDevCache s in
      if data mdc \<noteq> None \<and> now - timestamp mdc < MODELS_DEV_CACHE_TTL
      then (s, [])
      else
        (case reply of
           Status304 \<Rightarrow> s\<lparr>modelsDevCache := mdc\<lparr>timestamp := replyTime\<rparr>\<rparr>
         | Status200 body header \<Rightarrow>
             s\<lparr>modelsDevCache :=
                 \<lparr>data = Some body, timestamp = replyTime, etag = truthyString header\<rparr>\<rparr>
         | TransportFailure message \<Rightarrow> s,
         [CatalogGet (truthyString (etag mdc))]))"

subsection \<open>\<open>getModelsFromModelsDev\<close> and \<open>modelsDevToFetchedModel\<close>\<close>

text \<open>\<open>m.modalities?.input?.includes(kind)\<close>: \<open>undefined\<close> when there are no modalities.\<close>

definition inputIncludes :: "ModelsDevModel \<Rightarrow> string \<Rightarrow> bool option" where
  "inputIncludes m kind =
     (case md_modalities m of None \<Rightarrow> None | Some mo \<Rightarrow> Some (kind \<in> set (mod_input mo)))"

definition modelsDevToFetchedModel :: "ModelsDevModel \<Rightarrow> APIProvider \<Rightarrow> FetchedModel" where
  "modelsDevToFetchedModel m provider =
     \<lparr>fm_id = md_id m,
      fm_name = (if md_name m \<noteq> [] then md_name m else md_id m),
      fm_provider = provider,
      fm_pricing = Some \<lparr>pr_input = cost_input (md_cost m), pr_output = cost_output (md_cost m),
                          pr_cacheRead = cache_read (md_cost m),
                          pr_cacheWrite = cache_write (md_cost m)\<rparr>,
      fm_contextLength = Some (limit_context (md_limit m)),
      fm_capabilities = Some \<lparr>chat = Some True, vision = inputIncludes m ''image'',
                               audio = inputIncludes m ''audio'',
                               embedding = Some (str_includes (md_id m) ''embedding'')\<rparr>\<rparr>"

text \<open>The callback of \<open>filter\<close> in \<open>getModelsFromModelsDev\<close>, statement by statement.\<close>

definition catalogFilter :: "ModelsDevModel \<Rightarrow> bool" where
  "catalogFilter m =
     (if md_status m = Some ''deprecated'' then False
      else if str_includes (md_id m) ''embedding'' then False
      else if str_includes (md_id m) ''tts'' then False
      else if limit_output (md_limit m) = 0 \<and> cost_output (md_cost m) = 0 then False
      else True)"

text \<open>
  The provider's catalogue, if the snapshot has one: \<open>None\<close> on each of the early returns
  shared by \<open>getModelsFromModelsDev\<close> and \<open>enrichWithModelsDev\<close> (no data, no models.dev
  id for the provider, provider absent from the data). None of the four models.dev ids
  is a property inherited from \<open>Object.prototype\<close>, so \<open>data[modelsDevId]\<close> reads own keys
  only.
\<close>

definition providerCatalog :: "ModelFetchService \<Rightarrow> APIProvider \<Rightarrow> ModelsDevProvider option" where
  "providerCatalog s provider =
     (case data (modelsDevCache s) of
        None \<Rightarrow> None
      | Some d \<Rightarrow>
          (let modelsDevId = PROVIDER_TO_MODELS_DEV provider
           in if modelsDevId = [] then None else map_of d modelsDevId))"

definition getModelsFromModelsDev ::
  "(string \<Rightarrow> string \<Rightarrow> int) \<Rightarrow> ModelFetchService \<Rightarrow> APIProvider \<Rightarrow> FetchedModel list" where
  "getModelsFromModelsDev cmp s provider =
     (case providerCatalog s provider of
        None \<Rightarrow> []
      | Some providerData \<Rightarrow>
          sortBy (\<lambda>a b. cmp (fm_name a) (fm_name b))
            (map (\<lambda>m. modelsDevToFetchedModel m provider)
              (filter catalogFilter (map snd (prov_models providerData)))))"

subsection \<open>\<open>enrichWithModelsDev\<close>\<close>

text \<open>
  The catalogue of a provider is a plain object parsed from JSON, and \<open>catalog[model.id]\<close>
  is a property read: it finds the object's own key, and failing that a property
  inherited from \<open>Object.prototype\<close>. The inherited values are functions (and, for
  \<open>__proto__\<close>, the prototype object): truthy values without \<open>cost\<close>, \<open>limit\<close> or
  \<open>modalities\<close>.
\<close>

definition objectPrototypeKeys :: "string list" where
  "objectPrototypeKeys =
     [''constructor'', ''__defineGetter__'', ''__defineSetter__'', ''hasOwnProperty'',
      ''__lookupGetter__'', ''__lookupSetter__'', ''isPrototypeOf'', ''propertyIsEnumerable'',
      ''toString'', ''valueOf'', ''__proto__'', ''toLocaleString'']"

datatype 'a PropertyRead = Own 'a | Inherited | Undefined

definition readProperty :: "(string \<times> 'a) list \<Rightarrow> string \<Rightarrow> 'a PropertyRead" where
  "readProperty obj key =
     (case map_of obj key of
        Some v \<Rightarrow> Own v
      | None \<Rightarrow> if key \<in> set objectPrototypeKeys then Inherited else Undefined)"

text \<open>
  The only error thrown inside the \<open>try\<close> block of \<open>fetchModels\<close> on data of the declared
  types: reading \<open>catalogEntry.cost.input\<close> when \<open>catalogEntry.cost\<close> is \<open>undefined\<close>.
\<close>

datatype Thrown = TypeError

text \<open>\<open>a || b\<close> on optional booleans: \<open>a\<close> when it is \<open>true\<close>, else \<open>b\<close>.\<close>

definition jsOr :: "bool option \<Rightarrow> bool option \<Rightarrow> bool option" where
  "jsOr a b = (if a = Some True then a else b)"

text \<open>\<open>model.capabilities?.f\<close>.\<close>

definition capability :: "(Capabilities \<Rightarrow> bool option) \<Rightarrow> FetchedModel \<Rightarrow> bool option" where
  "capability f model = (case fm_capabilities model of None \<Rightarrow> None | Some c \<Rightarrow> f c)"

text \<open>
  The callback of \<open>models.map\<close> in step 1. \<open>model.pricing || {...}\<close> keeps a pricing object
  that is present and only otherwise reads \<open>catalogEntry.cost.input\<close>, which throws for an
  inherited value. \<open>model.contextLength || catalogEntry.limit?.context\<close> keeps a context
  length that is present and not zero; for an inherited value the right-hand side is
  \<open>undefined\<close>, and so is \<open>catalogEntry.modalities?.input?.includes(...)\<close>.
\<close>

definition enrichModel ::
  "(string \<times> ModelsDevModel) list \<Rightarrow> FetchedModel \<Rightarrow> Thrown + FetchedModel" where
  "enrichModel catalog model =
     (case readProperty catalog (fm_id model) of
        Undefined \<Rightarrow> Inr model
      | Own catalogEntry \<Rightarrow>
          Inr (model\<lparr>
            fm_pricing :=
              (case fm_pricing model of
                 Some p \<Rightarrow> Some p
               | None \<Rightarrow>
                   Some \<lparr>pr_input = cost_input (md_cost catalogEntry),
                         pr_output = cost_output (md_cost catalogEntry),
                         pr_cacheRead = cache_read (md_cost catalogEntry),
                         pr_cacheWrite = cache_write (md_cost catalogEntry)\<rparr>),
            fm_contextLength :=
              (case fm_contextLength model of
                 Some n \<Rightarrow> if n \<noteq> 0 then Some n else Some (limit_context (md_limit catalogEntry))
               | None \<Rightarrow> Some (limit_context (md_limit catalogEntry))),
            fm_capabilities :=
              Some \<lparr>chat = capability chat model,
                    vision = jsOr (capability vision model) (inputIncludes catalogEntry ''image''),
                    audio = jsOr (capability audio model) (inputIncludes catalogEntry ''audio''),
                    embedding = capability embedding model\<rparr>\<rparr>)
      | Inherited \<Rightarrow>
          (case fm_pricing model of
             None \<Rightarrow> Inl TypeError
           | Some p \<Rightarrow>
               Inr (model\<lparr>
                 fm_pricing := Some p,
                 fm_contextLength :=
                   (case fm_contextLength model of
                      Some n \<Rightarrow> if n \<noteq> 0 then Some n else None
                    | None \<Rightarrow> None),
                 fm_capabilities :=
                   Some \<lparr>chat = capability chat model,
                         vision = jsOr (capability vision model) None,
                         audio = jsOr (capability audio model) None,
                         embedding = capability embedding model\<rparr>\<rparr>)))"

text \<open>\<open>Array.prototype.map\<close> with a callback that may throw: the first throw ends it.\<close>

fun mapThrowing :: "('a \<Rightarrow> Thrown + 'b) \<Rightarrow> 'a list \<Rightarrow> Thrown + 'b list" where
  "mapThrowing f [] = Inr []"
| "mapThrowing f (x # xs) =
     (case f x of
        Inl e \<Rightarrow> Inl e
      | Inr y \<Rightarrow> (case mapThrowing f xs of Inl e \<Rightarrow> Inl e | Inr ys \<Rightarrow> Inr (y # ys)))"

definition enrichWithModelsDev ::
  "(string \<Rightarrow> string \<Rightarrow> int) \<Rightarrow> ModelFetchService \<Rightarrow> FetchedModel list \<Rightarrow> APIProvider
     \<Rightarrow> Thrown + FetchedModel list" where
  "enrichWithModelsDev cmp s models provider =
     (case providerCatalog s provider of
        None \<Rightarrow> Inr models
      | Some providerData \<Rightarrow>
          (let catalog = prov_models providerData;
               apiModelIds = map fm_id models
           in case mapThrowing (enrichModel catalog) models of
                Inl e \<Rightarrow> Inl e
              | Inr enriched \<Rightarrow>
                  (let catalogModels = getModelsFromModelsDev cmp s provider;
                       additional = filter (\<lambda>m. fm_id m \<notin> set apiModelIds) catalogModels
                   in Inr (enriched @ additional))))"

subsection \<open>\<open>getStaticFallbackModels\<close>, \<open>clearCache\<close>\<close>

definition getStaticFallbackModels :: "APIProvider \<Rightarrow> FetchedModel list" where
  "getStaticFallbackModels provider =
     map (\<lambda>i. \<lparr>fm_id = i, fm_name = i, fm_provider = provider, fm_pricing = None,
                fm_contextLength = None, fm_capabilities = None\<rparr>)
       (ALLOWED_MODELS provider)"

text \<open>
  \<open>clearCache(provider?)\<close>: the loop visits the keys of the map and deletes each key that
  starts with the provider's tag. Every tag is a non-empty string, so \<open>if (provider)\<close>
  holds exactly when the argument is given.
\<close>

definition clearCache :: "APIProvider option \<Rightarrow> ModelFetchService \<Rightarrow> ModelFetchService" where
  "clearCache provider s =
     (case provider of
        Some p \<Rightarrow>
          s\<lparr>cache :=
              fold (\<lambda>key c. if prefix (providerTag p) key then AList.delete key c else c)
                (map fst (cache s)) (cache s)\<rparr>
      | None \<Rightarrow> s\<lparr>cache := []\<rparr>)"

subsection \<open>\<open>fetchModels\<close>\<close>

text \<open>\<open>options?.forceRefresh\<close> as a condition.\<close>

definition forceRefresh :: "ModelFetchOptions option \<Rightarrow> bool" where
  "forceRefresh options =
     (case options of None \<Rightarrow> False | Some opts \<Rightarrow> opt_forceRefresh opts = Some True)"

text \<open>
  The cache read of \<open>fetchModels\<close>: the entry that is returned without any further work,
  if there is one.
\<close>

definition freshCacheEntry ::
  "ModelFetchService \<Rightarrow> string \<Rightarrow> ModelFetchOptions option \<Rightarrow> int \<Rightarrow> CacheEntry option" where
  "freshCacheEntry s key options now =
     (if forceRefresh options then None
      else
        (case map_of (cache s) key of
           None \<Rightarrow> None
         | Some cached \<Rightarrow> if now - ce_timestamp cached < CACHE_TTL then Some cached else None))"

text \<open>
  The \<open>switch\<close> over the provider. Each fetcher issues its listing request and returns the
  normalised list or throws; \<open>fetchAzureModels\<close> throws before any request when the
  endpoint is missing. The \<open>default\<close> branch needs a provider outside the union type.
\<close>

definition callProvider ::
  "Env \<Rightarrow> APIProvider \<Rightarrow> ModelFetchOptions option
     \<Rightarrow> (string + FetchedModel list) \<times> Request list" where
  "callProvider env provider options =
     (if provider = AzureOpenAI \<and>
         truthyString (case options of None \<Rightarrow> None | Some opts \<Rightarrow> opt_endpoint opts) = None
      then (Inl ''Azure OpenAI requires an endpoint URL'', [])
      else (env_providerReply env, [ProviderList provider]))"

text \<open>
  \<open>fetchModels\<close> returns the result, the new service state and the requests issued. The
  catalogue request is started before the provider's and awaited before the catalogue is
  read, so the model completes it first. An error thrown by the enrichment reaches the
  outer \<open>catch\<close>: the result cache is not written and the result is the static list with
  \<open>error.message || "Failed to fetch models"\<close>.
\<close>

definition fetchModels ::
  "(string \<Rightarrow> string \<Rightarrow> int) \<Rightarrow> Env \<Rightarrow> ModelFetchService \<Rightarrow> APIProvider \<Rightarrow> string
     \<Rightarrow> ModelFetchOptions option \<Rightarrow> ModelFetchResult \<times> ModelFetchService \<times> Request list" where
  "fetchModels cmp env s provider apiKey options =
     (if trim apiKey = []
      then
        (let (s1, requests) =
               ensureModelsDevData (env_now env) (env_catalogReply env) (env_catalogTime env) s;
             catalogModels = getModelsFromModelsDev cmp s1 provider
         in if catalogModels \<noteq> []
            then (\<lparr>r_success = True, r_models = catalogModels, r_error = None,
                   r_cachedAt = None, r_source = Some ModelsDev\<rparr>, s1, requests)
            else (\<lparr>r_success = False, r_models = getStaticFallbackModels provider,
                   r_error = Some ''API key is required'', r_cachedAt = None,
                   r_source = Some Static\<rparr>, s1, requests))
      else
        (let key = cacheKey provider apiKey in
         case freshCacheEntry s key options (env_now env) of
           Some cached \<Rightarrow>
             (\<lparr>r_success = True, r_models = ce_models cached, r_error = None,
               r_cachedAt = Some (ce_timestamp cached), r_source = Some (ce_source cached)\<rparr>,
              s, [])
         | None \<Rightarrow>
             (let (s1, requests1) =
                    ensureModelsDevData (env_now env) (env_catalogReply env)
                      (env_catalogTime env) s;
                  (reply, requests2) = callProvider env provider options;
                  (models, source) =
                    (case reply of
                       Inr apiModels \<Rightarrow> (apiModels, Api)
                     | Inl apiError \<Rightarrow>
                         (let catalogModels = getModelsFromModelsDev cmp s1 provider
                          in if catalogModels \<noteq> [] then (catalogModels, ModelsDev)
                             else (getStaticFallbackModels provider, Static)))
              in case (if provider \<noteq> OpenRouter
                       then enrichWithModelsDev cmp s1 models provider else Inr models) of
                   Inr models' \<Rightarrow>
                     (\<lparr>r_success = True, r_models = models', r_error = None,
                       r_cachedAt = None, r_source = Some source\<rparr>,
                      s1\<lparr>cache :=
                           AList.update key
                             \<lparr>ce_models = models', ce_timestamp = env_storeTime env,
                              ce_source = source\<rparr>
                             (cache s1)\<rparr>,
                      requests1 @ requests2)
                 | Inl error \<Rightarrow>
                     (\<lparr>r_success = False, r_models = getStaticFallbackModels provider,
                       r_error = Some (if env_errorMessage env \<noteq> [] then env_errorMessage env
                                       else ''Failed to fetch models''),
                       r_cachedAt = None, r_source = Some Static\<rparr>,
                      s1, requests1 @ requests2))))"

section \<open>Auxiliary definitions\<close>

text \<open>What the fallback chain produces before enrichment.\<close>

definition resolved ::
  "(string \<Rightarrow> string \<Rightarrow> int) \<Rightarrow> ModelFetchService \<Rightarrow> APIProvider
     \<Rightarrow> string + FetchedModel list \<Rightarrow> FetchedModel list \<times> Source" where
  "resolved cmp s1 provider reply =
     (case reply of
        Inr apiModels \<Rightarrow> (apiModels, Api)
      | Inl apiError \<Rightarrow>
          (if getModelsFromModelsDev cmp s1 provider \<noteq> []
           then (getModelsFromModelsDev cmp s1 provider, ModelsDev)
           else (getStaticFallbackModels provider, Static)))"

text \<open>
  A provider catalogue is keyed by model id when its keys are distinct (as the keys of a
  JavaScript object are) and every entry is stored under its own id.
\<close>

definition catalogKeyedById :: "ModelsDevProvider \<Rightarrow> bool" where
  "catalogKeyedById providerData \<longleftrightarrow>
     distinct (map fst (prov_models providerData)) \<and>
     list_all (\<lambda>(key, m). md_id m = key) (prov_models providerData)"

subsection \<open>A reference collation\<close>

text \<open>
  The examples need some comparator in the place of \<open>localeCompare\<close>. This one compares
  the code units after mapping \<open>A\<close>..\<open>Z\<close> to lower case; it is a total preorder.
\<close>

definition lowerCode :: "char \<Rightarrow> nat" where
  "lowerCode c = (if 65 \<le> (of_char c :: nat) \<and> (of_char c :: nat) \<le> 90
                  then of_char c + 32 else of_char c)"

fun lexCompare :: "nat list \<Rightarrow> nat list \<Rightarrow> int" where
  "lexCompare [] [] = 0"
| "lexCompare [] (y # ys) = - 1"
| "lexCompare (x # xs) [] = 1"
| "lexCompare (x # xs) (y # ys) =
     (if x < y then - 1 else if y < x then 1 else lexCompare xs ys)"

definition caseInsensitiveCompare :: "string \<Rightarrow> string \<Rightarrow> int" where
  "caseInsensitiveCompare a b = lexCompare (map lowerCode a) (map lowerCode b)"

section \<open>Example data\<close>

definition exampleEntry :: "Source \<Rightarrow> CacheEntry" where
  "exampleEntry src = \<lparr>ce_models = getStaticFallbackModels OpenAI, ce_timestamp = 1000,
                        ce_source = src\<rparr>"

definition exampleCaches :: ModelFetchService where
  "exampleCaches =
     \<lparr>cache = [(cacheKey OpenAI ''sk-abc'', exampleEntry Api),
               (cacheKey OpenRouter ''sk-or-1'', exampleEntry Static)],
      modelsDevCache = \<lparr>data = Some [], timestamp = 500, etag = Some ''v1''\<rparr>\<rparr>"

definition exampleCatalog :: ModelsDevData where
  "exampleCatalog =
     [(''openai'',
       \<lparr>prov_name = ''OpenAI'',
        prov_models =
          [(''m1'', \<lparr>md_id = ''m1'', md_name = ''Model One'',
                     md_cost = \<lparr>cost_input = 1, cost_output = 2, cache_read = None,
                                cache_write = None\<rparr>,
                     md_limit = \<lparr>limit_context = 128000, limit_output = 4096\<rparr>,
                     md_modalities = Some \<lparr>mod_input = [''text'', ''image''],
                                            mod_output = [''text'']\<rparr>,
                     md_status = None\<rparr>),
           (''m2'', \<lparr>md_id = ''m2'', md_name = ''a second model'',
                     md_cost = \<lparr>cost_input = 3, cost_output = 4, cache_read = None,
                                cache_write = None\<rparr>,
                     md_limit = \<lparr>limit_context = 8192, limit_output = 1024\<rparr>,
                     md_modalities = None,
                     md_status = None\<rparr>)]\<rparr>)]"

definition exampleEnv :: "CatalogReply \<Rightarrow> string + FetchedModel list \<Rightarrow> Env" where
  "exampleEnv catalogReply providerReply =
     \<lparr>env_now = 5000, env_catalogReply = catalogReply, env_catalogTime = 5100,
      env_providerReply = providerReply, env_storeTime = 5200,
      env_errorMessage = ''Cannot read properties of undefined''\<rparr>"

definition exampleLoaded :: ModelFetchService where
  "exampleLoaded =
     \<lparr>cache = [],
      modelsDevCache = \<lparr>data = Some exampleCatalog, timestamp = 5100, etag = Some ''v2''\<rparr>\<rparr>"

definition exampleNoKeyCall :: "ModelFetchResult \<times> ModelFetchService \<times> Request list" where
  "exampleNoKeyCall =
     fetchModels caseInsensitiveCompare (exampleEnv (TransportFailure ''offline'') (Inr []))
       initialService OpenAI [] None"

definition exampleDegradedCall :: "ModelFetchResult \<times> ModelFetchService \<times> Request list" where
  "exampleDegradedCall =
     fetchModels caseInsensitiveCompare
       (exampleEnv (TransportFailure ''offline'') (Inl ''401 Unauthorized''))
       initialService OpenAI ''sk-abc'' None"

definition exampleApiModels :: "FetchedModel list" where
  "exampleApiModels =
     [\<lparr>fm_id = ''m1'', fm_name = ''m1'', fm_provider = OpenAI, fm_pricing = None,
       fm_contextLength = None, fm_capabilities = Some \<lparr>chat = Some True, vision = Some False,
       audio = None, embedding = None\<rparr>\<rparr>]"

definition exampleFirstCall :: "ModelFetchResult \<times> ModelFetchService \<times> Request list" where
  "exampleFirstCall =
     fetchModels caseInsensitiveCompare
       (exampleEnv (Status200 exampleCatalog (Some ''v2'')) (Inr exampleApiModels))
       initialService OpenAI ''sk-abc'' None"

definition exampleLaterEnv :: Env where
  "exampleLaterEnv =
     \<lparr>env_now = 200000, env_catalogReply = TransportFailure ''offline'',
      env_catalogTime = 200100, env_providerReply = Inl ''offline'', env_storeTime = 200200,
      env_errorMessage = ''Cannot read properties of undefined''\<rparr>"

definition speechEntry :: "string \<Rightarrow> string \<Rightarrow> string option \<Rightarrow> int \<Rightarrow> rat \<Rightarrow> ModelsDevModel" where
  "speechEntry i n status out cost =
     \<lparr>md_id = i, md_name = n,
      md_cost = \<lparr>cost_input = 1, cost_output = cost, cache_read = None, cache_write = None\<rparr>,
      md_limit = \<lparr>limit_context = 16000, limit_output = out\<rparr>,
      md_modalities = Some \<lparr>mod_input = [''audio''], mod_output = [''text'']\<rparr>,
      md_status = status\<rparr>"

definition exampleSpeech :: ModelFetchService where
  "exampleSpeech =
     \<lparr>cache = [],
      modelsDevCache =
        \<lparr>data = Some [(''openai'',
            \<lparr>prov_name = ''OpenAI'',
             prov_models =
               [(''whisper-1'', speechEntry ''whisper-1'' ''Whisper'' None 448 0),
                (''old-1'', speechEntry ''old-1'' ''Old'' (Some ''deprecated'') 2000 10),
                (''text-embedding-3'', speechEntry ''text-embedding-3'' ''Embed'' None 2000 10),
                (''tts-1'', speechEntry ''tts-1'' ''Speak'' None 2000 10),
                (''none-1'', speechEntry ''none-1'' ''None'' None 0 0),
                (''gpt-4o-transcribe'',
                   speechEntry ''gpt-4o-transcribe'' ''GPT-4o Transcribe'' None 2000 10)]\<rparr>)],
         timestamp = 5100, etag = None\<rparr>\<rparr>"

definition exampleZeroContext :: FetchedModel where
  "exampleZeroContext =
     \<lparr>fm_id = ''m1'', fm_name = ''m1'', fm_provider = OpenAI, fm_pricing = None,
      fm_contextLength = Some 0, fm_capabilities = None\<rparr>"

definition examplePricedModels :: "FetchedModel list" where
  "examplePricedModels =
     [\<lparr>fm_id = ''m1'', fm_name = ''m1'', fm_provider = OpenAI,
       fm_pricing = Some \<lparr>pr_input = 9, pr_output = 9, pr_cacheRead = None,
                          pr_cacheWrite = None\<rparr>,
       fm_contextLength = None, fm_capabilities = None\<rparr>]"

definition exampleConstructorModel :: FetchedModel where
  "exampleConstructorModel =
     \<lparr>fm_id = ''constructor'', fm_name = ''constructor'', fm_provider = OpenAI,
      fm_pricing = None, fm_contextLength = None, fm_capabilities = None\<rparr>"

definition exampleThrowingCall :: "ModelFetchResult \<times> ModelFetchService \<times> Request list" where
  "exampleThrowingCall =
     fetchModels caseInsensitiveCompare
       (exampleEnv (Status200 exampleCatalog (Some ''v2'')) (Inr [exampleConstructorModel]))
       initialService OpenAI ''sk-abc'' None"

definition exampleMiskeyed :: ModelFetchService where
  "exampleMiskeyed =
     \<lparr>cache = [],
      modelsDevCache =
        \<lparr>data = Some [(''openai'',
            \<lparr>prov_name = ''OpenAI'',
             prov_models =
               [(''x'', \<lparr>md_id = ''y'', md_name = ''A'',
                          md_cost = \<lparr>cost_input = 1, cost_output = 2, cache_read = None,
                                     cache_write = None\<rparr>,
                          md_limit = \<lparr>limit_context = 0, limit_output = 4096\<rparr>,
                          md_modalities = None, md_status = None\<rparr>),
                (''y'', \<lparr>md_id = ''z'', md_name = ''B'',
                          md_cost = \<lparr>cost_input = 3, cost_output = 4, cache_read = None,
                                     cache_write = None\<rparr>,
                          md_limit = \<lparr>limit_context = 100, limit_output = 4096\<rparr>,
                          md_modalities = None, md_status = None\<rparr>)]\<rparr>)],
         timestamp = 5100, etag = None\<rparr>\<rparr>"

section \<open>Properties of \<open>sanitizeModelSelection\<close>\<close>

lemma DEFAULT_MODELS_nonempty: "DEFAULT_MODELS provider category \<noteq> []"
  by (cases provider; cases category) simp_all

text \<open>
  Claim C9. \<open>sanitizeModelSelection\<close> is idempotent: for every chosen id, provider,
  category and optional dynamic allow-list, sanitising the output again with the same
  provider, category and allow-list returns that output unchanged. (Being a function of
  its four arguments only, it yields the same output for the same inputs.)
\<close>

theorem sanitizeModelSelection_idempotent:
  "sanitizeModelSelection (sanitizeModelSelection model provider category dyn)
     provider category dyn
   = sanitizeModelSelection model provider category dyn"
  by (cases dyn) (auto simp: sanitizeModelSelection_def Let_def DEFAULT_MODELS_nonempty)

theorem sanitizeModelSelection_idempotent_witness:
  "sanitizeModelSelection ''bogus-id'' Gemini SolutionModel None = ''gemini-3-flash-preview''
   \<and> sanitizeModelSelection (sanitizeModelSelection ''bogus-id'' Gemini SolutionModel None)
        Gemini SolutionModel None = ''gemini-3-flash-preview''"
  using sanitizeModelSelection_idempotent [of "''bogus-id''" Gemini SolutionModel None]
  by (simp add: sanitizeModelSelection_def)

section \<open>Properties of \<open>clearCache\<close>\<close>

lemma fold_delete_filter:
  "fold (\<lambda>key c. if P key then AList.delete key c else c) ks c
   = filter (\<lambda>(k, v). \<not> (P k \<and> k \<in> set ks)) c"
proof (induction ks arbitrary: c)
  case Nil
  then show ?case by simp
next
  case (Cons k ks)
  have "filter (\<lambda>(k', v). \<not> (P k' \<and> k' \<in> set ks)) (AList.delete k c)
        = filter (\<lambda>(k', v). \<not> (P k' \<and> k' \<in> set ks) \<and> k \<noteq> k') c"
    by (simp add: AList.delete_eq case_prod_unfold conj_commute)
  with Cons show ?case
    by (auto simp: case_prod_unfold intro!: filter_cong)
qed

lemma clearCache_Some_filter:
  "cache (clearCache (Some p) s)
   = filter (\<lambda>(key, entry). \<not> prefix (providerTag p) key) (cache s)"
  by (force simp: clearCache_def fold_delete_filter intro!: filter_cong)

lemma providerTag_not_prefix_other:
  "q \<noteq> p \<Longrightarrow> \<not> prefix (providerTag p) (cacheKey q apiKey)"
  by (cases p; cases q) (simp_all add: cacheKey_def)

lemma providerTag_prefix_own: "prefix (providerTag p) (cacheKey p apiKey)"
  by (simp add: cacheKey_def)

lemma map_of_filter_key:
  "map_of (filter (\<lambda>(k, v). Q k) xs) key = (if Q key then map_of xs key else None)"
  by (induction xs) auto

text \<open>
  Claim C10. \<open>clearCache\<close> with a provider removes exactly the entries of the result cache
  whose key begins with that provider's tag: the cache becomes the old one without those
  entries, so the entry of every other provider, under any credential, is still there
  (and the entries of the provider itself are gone), and the catalogue snapshot
  \<open>modelsDevCache\<close> (data, timestamp and etag) is unchanged. \<open>clearCache\<close> without an
  argument empties the result cache and leaves the catalogue snapshot unchanged.
\<close>

theorem clearCache_frame:
  "cache (clearCache (Some p) s)
     = filter (\<lambda>(key, entry). \<not> prefix (providerTag p) key) (cache s)
   \<and> (\<forall>q apiKey. q \<noteq> p \<longrightarrow>
         map_of (cache (clearCache (Some p) s)) (cacheKey q apiKey)
         = map_of (cache s) (cacheKey q apiKey))
   \<and> (\<forall>apiKey. map_of (cache (clearCache (Some p) s)) (cacheKey p apiKey) = None)
   \<and> modelsDevCache (clearCache (Some p) s) = modelsDevCache s
   \<and> cache (clearCache None s) = []
   \<and> modelsDevCache (clearCache None s) = modelsDevCache s"
proof -
  have others: "map_of (cache (clearCache (Some p) s)) (cacheKey q apiKey)
                = map_of (cache s) (cacheKey q apiKey)" if "q \<noteq> p" for q apiKey
    using providerTag_not_prefix_other [OF that]
    by (simp add: clearCache_Some_filter map_of_filter_key)
  have own: "map_of (cache (clearCache (Some p) s)) (cacheKey p apiKey) = None" for apiKey
    by (simp add: clearCache_Some_filter map_of_filter_key providerTag_prefix_own)
  have frame: "modelsDevCache (clearCache x s) = modelsDevCache s" for x
    by (cases x) (simp_all add: clearCache_def)
  have "cache (clearCache None s) = []"
    by (simp add: clearCache_def)
  with others own frame clearCache_Some_filter show ?thesis
    by blast
qed

theorem clearCache_frame_witness:
  "cache (clearCache (Some OpenAI) exampleCaches)
     = [(cacheKey OpenRouter ''sk-or-1'', exampleEntry Static)]
   \<and> map_of (cache (clearCache (Some OpenAI) exampleCaches)) (cacheKey OpenRouter ''sk-or-1'')
       = Some (exampleEntry Static)
   \<and> modelsDevCache (clearCache (Some OpenAI) exampleCaches)
       = \<lparr>data = Some [], timestamp = 500, etag = Some ''v1''\<rparr>
   \<and> cache (clearCache None exampleCaches) = []"
  using clearCache_frame [of OpenAI exampleCaches]
  by (simp add: exampleCaches_def cacheKey_def)

section \<open>Properties of \<open>ensureModelsDevData\<close>\<close>

lemma ensureModelsDevData_fresh:
  "data (modelsDevCache s) \<noteq> None \<Longrightarrow> now - timestamp (modelsDevCache s) < MODELS_DEV_CACHE_TTL
   \<Longrightarrow> ensureModelsDevData now reply replyTime s = (s, [])"
  by (simp add: ensureModelsDevData_def)

lemma ensureModelsDevData_stale:
  "data (modelsDevCache s) = None \<or> MODELS_DEV_CACHE_TTL \<le> now - timestamp (modelsDevCache s)
   \<Longrightarrow> ensureModelsDevData now reply replyTime s =
       (case reply of
          Status304 \<Rightarrow> s\<lparr>modelsDevCache := (modelsDevCache s)\<lparr>timestamp := replyTime\<rparr>\<rparr>
        | Status200 body header \<Rightarrow>
            s\<lparr>modelsDevCache :=
                \<lparr>data = Some body, timestamp = replyTime, etag = truthyString header\<rparr>\<rparr>
        | TransportFailure message \<Rightarrow> s,
        [CatalogGet (truthyString (etag (modelsDevCache s)))])"
  by (auto simp: ensureModelsDevData_def Let_def)

lemma ensureModelsDevData_cache: "cache (fst (ensureModelsDevData now reply replyTime s)) = cache s"
  by (simp add: ensureModelsDevData_def Let_def split: CatalogReply.splits)

lemma ensureModelsDevData_failure:
  "fst (ensureModelsDevData now (TransportFailure message) replyTime s) = s"
  by (simp add: ensureModelsDevData_def Let_def)

text \<open>
  Claim C8. Let the catalogue be due for a refresh (no data yet, or the snapshot is at
  least one hour old), so that \<open>ensureModelsDevData\<close> issues its one conditional request.
  \<^item> On \<open>304\<close> the data and the entity tag (and the result cache) stay as they are and
    only the timestamp is set, to the time of the reply.
  \<^item> On \<open>200\<close> the snapshot is replaced as a whole: the body, the time of the reply and
    the entity tag of the reply.
  \<^item> On a transport failure the state is returned untouched; the call returns normally.
  \<^item> After a \<open>200\<close>, and after a \<open>304\<close> that refreshed a loaded snapshot, a further call
    less than one hour after the reply issues no request and changes nothing, whatever
    the network would have answered.
\<close>

theorem ensureModelsDevData_conditional_refresh:
  assumes due:
    "data (modelsDevCache s) = None \<or> MODELS_DEV_CACHE_TTL \<le> now - timestamp (modelsDevCache s)"
  shows
    "ensureModelsDevData now Status304 replyTime s
       = (s\<lparr>modelsDevCache := (modelsDevCache s)\<lparr>timestamp := replyTime\<rparr>\<rparr>,
          [CatalogGet (truthyString (etag (modelsDevCache s)))])
     \<and> ensureModelsDevData now (Status200 body header) replyTime s
       = (s\<lparr>modelsDevCache :=
              \<lparr>data = Some body, timestamp = replyTime, etag = truthyString header\<rparr>\<rparr>,
          [CatalogGet (truthyString (etag (modelsDevCache s)))])
     \<and> ensureModelsDevData now (TransportFailure message) replyTime s
       = (s, [CatalogGet (truthyString (etag (modelsDevCache s)))])
     \<and> (now' - replyTime < MODELS_DEV_CACHE_TTL \<longrightarrow>
          ensureModelsDevData now' reply' replyTime'
            (fst (ensureModelsDevData now (Status200 body header) replyTime s))
          = (fst (ensureModelsDevData now (Status200 body header) replyTime s), []))
     \<and> (data (modelsDevCache s) \<noteq> None \<and> now' - replyTime < MODELS_DEV_CACHE_TTL \<longrightarrow>
          ensureModelsDevData now' reply' replyTime'
            (fst (ensureModelsDevData now Status304 replyTime s))
          = (fst (ensureModelsDevData now Status304 replyTime s), []))"
proof -
  note stale = ensureModelsDevData_stale [OF due]
  have r304: "ensureModelsDevData now Status304 replyTime s
       = (s\<lparr>modelsDevCache := (modelsDevCache s)\<lparr>timestamp := replyTime\<rparr>\<rparr>,
          [CatalogGet (truthyString (etag (modelsDevCache s)))])"
    by (simp add: stale)
  have r200: "ensureModelsDevData now (Status200 body header) replyTime s
       = (s\<lparr>modelsDevCache :=
              \<lparr>data = Some body, timestamp = replyTime, etag = truthyString header\<rparr>\<rparr>,
          [CatalogGet (truthyString (etag (modelsDevCache s)))])"
    by (simp add: stale)
  have rfail: "ensureModelsDevData now (TransportFailure message) replyTime s
       = (s, [CatalogGet (truthyString (etag (modelsDevCache s)))])"
    by (simp add: stale)
  have again200: "ensureModelsDevData now' reply' replyTime'
            (fst (ensureModelsDevData now (Status200 body header) replyTime s))
          = (fst (ensureModelsDevData now (Status200 body header) replyTime s), [])"
    if "now' - replyTime < MODELS_DEV_CACHE_TTL"
    using that by (simp add: r200 ensureModelsDevData_fresh)
  have again304: "ensureModelsDevData now' reply' replyTime'
            (fst (ensureModelsDevData now Status304 replyTime s))
          = (fst (ensureModelsDevData now Status304 replyTime s), [])"
    if "data (modelsDevCache s) \<noteq> None" "now' - replyTime < MODELS_DEV_CACHE_TTL"
    using that by (simp add: r304 ensureModelsDevData_fresh)
  from r304 r200 rfail again200 again304 show ?thesis
    by blast
qed

theorem ensureModelsDevData_conditional_refresh_witness:
  "ensureModelsDevData 5000 (Status200 exampleCatalog (Some ''v2'')) 5100 initialService
     = (exampleLoaded, [CatalogGet None])
   \<and> ensureModelsDevData 5000 (TransportFailure ''timeout'') 5100 initialService
     = (initialService, [CatalogGet None])
   \<and> ensureModelsDevData 6000 (TransportFailure ''timeout'') 6100 exampleLoaded
     = (exampleLoaded, [])
   \<and> ensureModelsDevData 4000000 Status304 4000100 exampleLoaded
     = (exampleLoaded\<lparr>modelsDevCache :=
          \<lparr>data = Some exampleCatalog, timestamp = 4000100, etag = Some ''v2''\<rparr>\<rparr>,
        [CatalogGet (Some ''v2'')])
   \<and> ensureModelsDevData 4000200 (TransportFailure ''timeout'') 4000300
        (fst (ensureModelsDevData 4000000 Status304 4000100 exampleLoaded))
     = (fst (ensureModelsDevData 4000000 Status304 4000100 exampleLoaded), [])"
proof -
  have due0: "data (modelsDevCache initialService) = None
      \<or> MODELS_DEV_CACHE_TTL \<le> 5000 - timestamp (modelsDevCache initialService)"
    by (simp add: initialService_def)
  have due1: "data (modelsDevCache exampleLoaded) = None
      \<or> MODELS_DEV_CACHE_TTL \<le> 4000000 - timestamp (modelsDevCache exampleLoaded)"
    by (simp add: exampleLoaded_def MODELS_DEV_CACHE_TTL_def)
  from ensureModelsDevData_conditional_refresh [OF due0, of 5100 exampleCatalog "Some ''v2''"
      "''timeout''" 6000 "TransportFailure ''timeout''" 6100]
    ensureModelsDevData_conditional_refresh [OF due1, of 4000100 exampleCatalog "Some ''v2''"
      "''timeout''" 4000200 "TransportFailure ''timeout''" 4000300]
  show ?thesis
    by (auto simp: exampleLoaded_def initialService_def truthyString_def
        MODELS_DEV_CACHE_TTL_def)
qed

section \<open>Properties of the reference collation\<close>

lemma lexCompare_total: "lexCompare xs ys \<le> 0 \<or> lexCompare ys xs \<le> 0"
  by (induction xs ys rule: lexCompare.induct) auto

lemma lexCompare_Nil: "lexCompare [] ys \<le> 0"
  by (cases ys) simp_all

lemma lexCompare_trans:
  "lexCompare xs ys \<le> 0 \<Longrightarrow> lexCompare ys zs \<le> 0 \<Longrightarrow> lexCompare xs zs \<le> 0"
proof (induction xs arbitrary: ys zs)
  case Nil
  show ?case by (rule lexCompare_Nil)
next
  case (Cons x xs)
  from Cons.prems(1) obtain y ys' where ys: "ys = y # ys'"
    by (cases ys) auto
  from Cons.prems(2) ys obtain z zs' where zs: "zs = z # zs'"
    by (cases zs) auto
  from Cons.prems ys zs have "x \<le> y" "y \<le> z"
    by (simp_all split: if_splits)
  show ?case
  proof (cases "x < z")
    case True
    then show ?thesis by (simp add: zs)
  next
    case False
    with \<open>x \<le> y\<close> \<open>y \<le> z\<close> have eq: "x = y" "y = z" by simp_all
    with Cons.prems ys zs have "lexCompare xs ys' \<le> 0" "lexCompare ys' zs' \<le> 0"
      by simp_all
    then have "lexCompare xs zs' \<le> 0" by (rule Cons.IH)
    with eq show ?thesis by (simp add: zs)
  qed
qed

lemma consistent_caseInsensitiveCompare: "consistentComparator caseInsensitiveCompare"
  unfolding consistentComparator_def caseInsensitiveCompare_def
  using lexCompare_total lexCompare_trans by blast

section \<open>Properties of \<open>getModelsFromModelsDev\<close>\<close>

lemma mset_insertBy: "mset (insertBy cmp x xs) = add_mset x (mset xs)"
  by (induction xs) auto

lemma mset_sortBy: "mset (sortBy cmp xs) = mset xs"
  by (induction xs) (auto simp: mset_insertBy)

lemma set_insertBy: "set (insertBy cmp x xs) = insert x (set xs)"
  by (induction xs) auto

lemma set_sortBy: "set (sortBy cmp xs) = set xs"
  by (induction xs) (simp_all add: set_insertBy)

lemma sorted_insertBy:
  assumes "consistentComparator cmp" and "sorted_wrt (\<lambda>a b. cmp a b \<le> 0) xs"
  shows "sorted_wrt (\<lambda>a b. cmp a b \<le> 0) (insertBy cmp x xs)"
  using assms(2)
proof (induction xs)
  case Nil
  then show ?case by simp
next
  case (Cons y ys)
  from assms(1) have total: "cmp a b \<le> 0 \<or> cmp b a \<le> 0" for a b
    unfolding consistentComparator_def by blast
  from assms(1) have trans: "cmp a b \<le> 0 \<Longrightarrow> cmp b c \<le> 0 \<Longrightarrow> cmp a c \<le> 0" for a b c
    unfolding consistentComparator_def by blast
  from Cons.prems have above: "\<forall>z\<in>set ys. cmp y z \<le> 0"
    and rest: "sorted_wrt (\<lambda>a b. cmp a b \<le> 0) ys"
    by simp_all
  show ?case
  proof (cases "cmp x y \<le> 0")
    case True
    have "cmp x z \<le> 0" if "z \<in> set ys" for z
      using True above that by (blast intro: trans)
    with True Cons.prems show ?thesis by simp
  next
    case False
    with total [of x y] have "cmp y x \<le> 0" by simp
    with False above Cons.IH [OF rest] show ?thesis
      by (simp add: set_insertBy)
  qed
qed

lemma sorted_sortBy:
  "consistentComparator cmp \<Longrightarrow> sorted_wrt (\<lambda>a b. cmp a b \<le> 0) (sortBy cmp xs)"
  by (induction xs) (simp_all add: sorted_insertBy)

lemma consistentComparator_on:
  "consistentComparator cmp \<Longrightarrow> consistentComparator (\<lambda>a b. cmp (f a) (f b))"
  unfolding consistentComparator_def by blast

lemma catalogFilter_iff:
  "catalogFilter m \<longleftrightarrow>
     \<not> (md_status m = Some ''deprecated'' \<or> str_includes (md_id m) ''embedding'' \<or>
        str_includes (md_id m) ''tts'' \<or>
        (limit_output (md_limit m) = 0 \<and> cost_output (md_cost m) = 0))"
  by (simp add: catalogFilter_def)

lemma getModelsFromModelsDev_set:
  "providerCatalog s provider = Some providerData \<Longrightarrow>
   set (getModelsFromModelsDev cmp s provider)
   = (\<lambda>m. modelsDevToFetchedModel m provider) `
       {m \<in> snd ` set (prov_models providerData). catalogFilter m}"
  by (auto simp: getModelsFromModelsDev_def set_sortBy)


lemma exampleSpeech_catalog:
  "providerCatalog exampleSpeech OpenAI =
     Some \<lparr>prov_name = ''OpenAI'',
             prov_models =
               [(''whisper-1'', speechEntry ''whisper-1'' ''Whisper'' None 448 0),
                (''old-1'', speechEntry ''old-1'' ''Old'' (Some ''deprecated'') 2000 10),
                (''text-embedding-3'', speechEntry ''text-embedding-3'' ''Embed'' None 2000 10),
                (''tts-1'', speechEntry ''tts-1'' ''Speak'' None 2000 10),
                (''none-1'', speechEntry ''none-1'' ''None'' None 0 0),
                (''gpt-4o-transcribe'',
                   speechEntry ''gpt-4o-transcribe'' ''GPT-4o Transcribe'' None 2000 10)]\<rparr>"
  by (simp add: providerCatalog_def exampleSpeech_def)

text \<open>
  Claim C7. When a provider's models are derived from the catalogue, an entry whose id
  carries a speech-to-text marker is to be excluded, like the deprecated, embedding and
  text-to-speech entries and those without output: the function is documented to keep
  chat-capable models only, and the fetchers of the providers exclude \<open>whisper\<close> ids. The
  filter of \<open>getModelsFromModelsDev\<close> tests the id for \<open>embedding\<close> and \<open>tts\<close> only. On
  the six entries of \<open>exampleSpeech\<close> it drops the deprecated one, the embedding one, the
  \<open>tts\<close> one and the one whose output limit and output cost are both zero, and it keeps
  the two speech-to-text entries \<open>whisper-1\<close> and \<open>gpt-4o-transcribe\<close>.
\<close>

theorem getModelsFromModelsDev_keeps_speech_to_text:
  "map fm_id (getModelsFromModelsDev caseInsensitiveCompare exampleSpeech OpenAI)
   = [''gpt-4o-transcribe'', ''whisper-1'']"
  by (simp add: getModelsFromModelsDev_def exampleSpeech_catalog catalogFilter_def
      speechEntry_def modelsDevToFetchedModel_def caseInsensitiveCompare_def lowerCode_def)

text \<open>
  What the filter and the sort do, for any comparator: the result holds the converted
  entries of the provider's catalogue, each as often as it occurs, except those whose
  status is \<open>deprecated\<close>, whose id contains \<open>embedding\<close> or \<open>tts\<close>, or whose output
  token limit and output cost are both zero; and it is in ascending order of display
  name under the comparator, provided the comparator is a total preorder.
\<close>

lemma getModelsFromModelsDev_filtered_sorted:
  assumes "providerCatalog s provider = Some providerData"
  shows "mset (getModelsFromModelsDev cmp s provider)
         = mset (map (\<lambda>m. modelsDevToFetchedModel m provider)
             (filter (\<lambda>m. \<not> (md_status m = Some ''deprecated'' \<or>
                               str_includes (md_id m) ''embedding'' \<or>
                               str_includes (md_id m) ''tts'' \<or>
                               (limit_output (md_limit m) = 0 \<and> cost_output (md_cost m) = 0)))
               (map snd (prov_models providerData))))
       \<and> (consistentComparator cmp \<longrightarrow>
            sorted_wrt (\<lambda>a b. cmp (fm_name a) (fm_name b) \<le> 0)
              (getModelsFromModelsDev cmp s provider))"
proof -
  have "catalogFilter = (\<lambda>m. \<not> (md_status m = Some ''deprecated'' \<or>
                               str_includes (md_id m) ''embedding'' \<or>
                               str_includes (md_id m) ''tts'' \<or>
                               (limit_output (md_limit m) = 0 \<and> cost_output (md_cost m) = 0)))"
    by (rule ext) (rule catalogFilter_iff)
  then have content: "mset (getModelsFromModelsDev cmp s provider)
         = mset (map (\<lambda>m. modelsDevToFetchedModel m provider)
             (filter (\<lambda>m. \<not> (md_status m = Some ''deprecated'' \<or>
                               str_includes (md_id m) ''embedding'' \<or>
                               str_includes (md_id m) ''tts'' \<or>
                               (limit_output (md_limit m) = 0 \<and> cost_output (md_cost m) = 0)))
               (map snd (prov_models providerData))))"
    using assms by (simp add: getModelsFromModelsDev_def mset_sortBy)
  have "sorted_wrt (\<lambda>a b. cmp (fm_name a) (fm_name b) \<le> 0)
          (getModelsFromModelsDev cmp s provider)" if "consistentComparator cmp"
    using assms sorted_sortBy [OF consistentComparator_on [OF that, of fm_name]]
    by (simp add: getModelsFromModelsDev_def)
  with content show ?thesis by blast
qed

lemma getModelsFromModelsDev_filtered_sorted_example:
  "size (mset (getModelsFromModelsDev caseInsensitiveCompare exampleSpeech OpenAI)) = 2
   \<and> sorted_wrt (\<lambda>a b. caseInsensitiveCompare (fm_name a) (fm_name b) \<le> 0)
       (getModelsFromModelsDev caseInsensitiveCompare exampleSpeech OpenAI)"
  using getModelsFromModelsDev_filtered_sorted [OF exampleSpeech_catalog,
      of caseInsensitiveCompare] consistent_caseInsensitiveCompare
  by (simp add: speechEntry_def)

section \<open>Properties of \<open>enrichWithModelsDev\<close>\<close>

lemma mapThrowing_Inr_iff:
  "mapThrowing f xs = Inr ys \<longleftrightarrow>
     (\<forall>x\<in>set xs. \<exists>y. f x = Inr y) \<and> ys = map (\<lambda>x. projr (f x)) xs"
proof (induction xs arbitrary: ys)
  case Nil
  show ?case by auto
next
  case (Cons x xs)
  show ?case
  proof (cases "f x")
    case (Inl e)
    then show ?thesis by auto
  next
    case (Inr y)
    show ?thesis
    proof (cases "mapThrowing f xs")
      case (Inl e)
      with Cons [of "map (\<lambda>x. projr (f x)) xs"] Inr show ?thesis by auto
    next
      case inner: (Inr zs)
      with Cons [of zs] Inr show ?thesis by auto
    qed
  qed
qed

lemma mapThrowing_returns:
  "(\<forall>x\<in>set xs. \<exists>y. f x = Inr y) \<Longrightarrow> mapThrowing f xs = Inr (map (\<lambda>x. projr (f x)) xs)"
  by (simp add: mapThrowing_Inr_iff)

lemma readProperty_Own_iff: "readProperty obj key = Own v \<longleftrightarrow> map_of obj key = Some v"
  by (simp add: readProperty_def split: option.splits)

lemma enrichModel_returns_iff:
  "(\<exists>e. enrichModel catalog model = Inr e) \<longleftrightarrow>
     \<not> (readProperty catalog (fm_id model) = Inherited \<and> fm_pricing model = None)"
  by (simp add: enrichModel_def split: PropertyRead.splits option.splits)

lemma enrichModel_priced:
  "fm_pricing model \<noteq> None \<Longrightarrow> \<exists>e. enrichModel catalog model = Inr e"
  by (simp add: enrichModel_returns_iff)

lemma enrichModel_plain_id:
  "fm_id model \<notin> set objectPrototypeKeys \<Longrightarrow> \<exists>e. enrichModel catalog model = Inr e"
  by (simp add: enrichModel_returns_iff readProperty_def split: option.splits)

lemma enrichModel_undefined:
  "readProperty catalog (fm_id model) = Undefined \<Longrightarrow> enrichModel catalog model = Inr model"
  by (simp add: enrichModel_def)

lemma enrichModel_own_eq:
  "readProperty catalog (fm_id model) = Own entry \<Longrightarrow>
   enrichModel catalog model =
     Inr (model\<lparr>
       fm_pricing :=
         (case fm_pricing model of
            Some p \<Rightarrow> Some p
          | None \<Rightarrow>
              Some \<lparr>pr_input = cost_input (md_cost entry), pr_output = cost_output (md_cost entry),
                    pr_cacheRead = cache_read (md_cost entry),
                    pr_cacheWrite = cache_write (md_cost entry)\<rparr>),
       fm_contextLength :=
         (case fm_contextLength model of
            Some n \<Rightarrow> if n \<noteq> 0 then Some n else Some (limit_context (md_limit entry))
          | None \<Rightarrow> Some (limit_context (md_limit entry))),
       fm_capabilities :=
         Some \<lparr>chat = capability chat model,
               vision = jsOr (capability vision model) (inputIncludes entry ''image''),
               audio = jsOr (capability audio model) (inputIncludes entry ''audio''),
               embedding = capability embedding model\<rparr>\<rparr>)"
  by (simp add: enrichModel_def)

lemma enrichModel_inherited_eq:
  "readProperty catalog (fm_id model) = Inherited \<Longrightarrow> fm_pricing model = Some p \<Longrightarrow>
   enrichModel catalog model =
     Inr (model\<lparr>
       fm_pricing := Some p,
       fm_contextLength :=
         (case fm_contextLength model of
            Some n \<Rightarrow> if n \<noteq> 0 then Some n else None
          | None \<Rightarrow> None),
       fm_capabilities :=
         Some \<lparr>chat = capability chat model,
               vision = jsOr (capability vision model) None,
               audio = jsOr (capability audio model) None,
               embedding = capability embedding model\<rparr>\<rparr>)"
  by (simp add: enrichModel_def)

lemma enrichModel_inherited_throws:
  "readProperty catalog (fm_id model) = Inherited \<Longrightarrow> fm_pricing model = None \<Longrightarrow>
   enrichModel catalog model = Inl TypeError"
  by (simp add: enrichModel_def)

lemma jsOr_true_iff: "jsOr a b = Some True \<longleftrightarrow> a = Some True \<or> b = Some True"
  by (simp add: jsOr_def)

lemma jsOr_idem: "jsOr (jsOr a b) b = jsOr a b"
  by (simp add: jsOr_def)

lemma capability_simps:
  "capability f (model\<lparr>fm_capabilities := Some c\<rparr>) = f c"
  "capability f (model\<lparr>fm_pricing := x\<rparr>) = capability f model"
  "capability f (model\<lparr>fm_contextLength := y\<rparr>) = capability f model"
  by (simp_all add: capability_def)

lemma enrichModel_kept:
  assumes "enrichModel catalog model = Inr e"
  shows "fm_id e = fm_id model" "fm_name e = fm_name model" "fm_provider e = fm_provider model"
    "capability chat e = capability chat model"
    "capability embedding e = capability embedding model"
    "fm_pricing model = Some p \<Longrightarrow> fm_pricing e = Some p"
    "fm_contextLength model = Some n \<Longrightarrow> n \<noteq> 0 \<Longrightarrow> fm_contextLength e = Some n"
    "capability vision model = Some True \<Longrightarrow> capability vision e = Some True"
    "capability audio model = Some True \<Longrightarrow> capability audio e = Some True"
proof -
  consider (own) entry where "readProperty catalog (fm_id model) = Own entry"
    | (inherited) q where "readProperty catalog (fm_id model) = Inherited" "fm_pricing model = Some q"
    | (undefined) "readProperty catalog (fm_id model) = Undefined"
  proof (cases "readProperty catalog (fm_id model)")
    case Inherited
    with assms obtain q where "fm_pricing model = Some q"
      by (cases "fm_pricing model") (simp_all add: enrichModel_inherited_throws)
    with Inherited that show ?thesis by blast
  qed (use that in blast)+
  then have "fm_id e = fm_id model \<and> fm_name e = fm_name model
      \<and> fm_provider e = fm_provider model
      \<and> capability chat e = capability chat model
      \<and> capability embedding e = capability embedding model
      \<and> (fm_pricing model = Some p \<longrightarrow> fm_pricing e = Some p)
      \<and> (fm_contextLength model = Some n \<and> n \<noteq> 0 \<longrightarrow> fm_contextLength e = Some n)
      \<and> (capability vision model = Some True \<longrightarrow> capability vision e = Some True)
      \<and> (capability audio model = Some True \<longrightarrow> capability audio e = Some True)"
  proof cases
    case own
    from assms [unfolded enrichModel_own_eq [OF own]] have e: "e = projr (enrichModel catalog model)"
      by (simp add: enrichModel_own_eq [OF own])
    show ?thesis
      unfolding e enrichModel_own_eq [OF own]
      by (simp add: capability_simps jsOr_def)
  next
    case inherited
    from assms have e: "e = projr (enrichModel catalog model)"
      by simp
    show ?thesis
      unfolding e enrichModel_inherited_eq [OF inherited]
      by (simp add: capability_simps jsOr_def inherited)
  next
    case undefined
    with assms show ?thesis
      by (simp add: enrichModel_undefined)
  qed
  then show "fm_id e = fm_id model" "fm_name e = fm_name model"
    "fm_provider e = fm_provider model"
    "capability chat e = capability chat model"
    "capability embedding e = capability embedding model"
    "fm_pricing model = Some p \<Longrightarrow> fm_pricing e = Some p"
    "fm_contextLength model = Some n \<Longrightarrow> n \<noteq> 0 \<Longrightarrow> fm_contextLength e = Some n"
    "capability vision model = Some True \<Longrightarrow> capability vision e = Some True"
    "capability audio model = Some True \<Longrightarrow> capability audio e = Some True"
    by simp_all
qed

lemma enrichModel_own:
  assumes "readProperty catalog (fm_id model) = Own entry"
    and "enrichModel catalog model = Inr e"
  shows "fm_pricing model = None \<Longrightarrow>
         fm_pricing e = Some \<lparr>pr_input = cost_input (md_cost entry),
                               pr_output = cost_output (md_cost entry),
                               pr_cacheRead = cache_read (md_cost entry),
                               pr_cacheWrite = cache_write (md_cost entry)\<rparr>"
    and "fm_contextLength model = None \<or> fm_contextLength model = Some 0 \<Longrightarrow>
         fm_contextLength e = Some (limit_context (md_limit entry))"
    and "capability vision e = Some True \<longleftrightarrow>
           capability vision model = Some True \<or> inputIncludes entry ''image'' = Some True"
    and "capability audio e = Some True \<longleftrightarrow>
           capability audio model = Some True \<or> inputIncludes entry ''audio'' = Some True"
proof -
  from assms(2) have e: "e = projr (enrichModel catalog model)"
    by simp
  show "fm_pricing model = None \<Longrightarrow>
         fm_pricing e = Some \<lparr>pr_input = cost_input (md_cost entry),
                               pr_output = cost_output (md_cost entry),
                               pr_cacheRead = cache_read (md_cost entry),
                               pr_cacheWrite = cache_write (md_cost entry)\<rparr>"
    unfolding e enrichModel_own_eq [OF assms(1)] by simp
  show "fm_contextLength model = None \<or> fm_contextLength model = Some 0 \<Longrightarrow>
         fm_contextLength e = Some (limit_context (md_limit entry))"
    unfolding e enrichModel_own_eq [OF assms(1)] by auto
  show "capability vision e = Some True \<longleftrightarrow>
           capability vision model = Some True \<or> inputIncludes entry ''image'' = Some True"
    unfolding e enrichModel_own_eq [OF assms(1)]
    by (simp add: capability_simps jsOr_true_iff)
  show "capability audio e = Some True \<longleftrightarrow>
           capability audio model = Some True \<or> inputIncludes entry ''audio'' = Some True"
    unfolding e enrichModel_own_eq [OF assms(1)]
    by (simp add: capability_simps jsOr_true_iff)
qed

lemma enrichModel_idem:
  assumes "enrichModel catalog model = Inr e"
  shows "enrichModel catalog e = Inr e"
proof -
  have same: "readProperty catalog (fm_id e) = readProperty catalog (fm_id model)"
    using enrichModel_kept(1) [OF assms] by simp
  from assms have e: "e = projr (enrichModel catalog model)"
    by simp
  show ?thesis
  proof (cases "readProperty catalog (fm_id model)")
    case (Own entry)
    have own': "readProperty catalog (fm_id e) = Own entry"
      using same Own by simp
    show ?thesis
      unfolding enrichModel_own_eq [OF own']
      unfolding e enrichModel_own_eq [OF Own]
      by (simp add: capability_simps jsOr_idem split: option.splits)
  next
    case Inherited
    with assms obtain q where q: "fm_pricing model = Some q"
      by (cases "fm_pricing model") (simp_all add: enrichModel_inherited_throws)
    have inh': "readProperty catalog (fm_id e) = Inherited"
      using same Inherited by simp
    have q': "fm_pricing e = Some q"
      using enrichModel_kept(6) [OF assms q] .
    show ?thesis
      unfolding enrichModel_inherited_eq [OF inh' q']
      unfolding e enrichModel_inherited_eq [OF Inherited q]
      by (simp add: capability_simps jsOr_idem split: option.splits)
  next
    case Undefined
    with assms have "e = model"
      by (simp add: enrichModel_undefined)
    with Undefined show ?thesis
      by (simp add: enrichModel_undefined)
  qed
qed

lemma enrichWithModelsDev_none:
  "providerCatalog s provider = None \<Longrightarrow>
   enrichWithModelsDev cmp s models provider = Inr models"
  by (simp add: enrichWithModelsDev_def)

lemma enrichWithModelsDev_Inr_iff:
  assumes "providerCatalog s provider = Some providerData"
  shows "enrichWithModelsDev cmp s models provider = Inr R \<longleftrightarrow>
     (\<forall>m\<in>set models. \<exists>e. enrichModel (prov_models providerData) m = Inr e) \<and>
     R = map (\<lambda>m. projr (enrichModel (prov_models providerData) m)) models
         @ filter (\<lambda>m. fm_id m \<notin> fm_id ` set models) (getModelsFromModelsDev cmp s provider)"
proof (cases "mapThrowing (enrichModel (prov_models providerData)) models")
  case (Inl e)
  then have "\<not> (\<forall>m\<in>set models. \<exists>e. enrichModel (prov_models providerData) m = Inr e)"
    using mapThrowing_returns [of models "enrichModel (prov_models providerData)"] by auto
  with Inl assms show ?thesis
    by (simp add: enrichWithModelsDev_def Let_def)
next
  case (Inr enriched)
  then have "(\<forall>m\<in>set models. \<exists>e. enrichModel (prov_models providerData) m = Inr e)"
    and "enriched = map (\<lambda>m. projr (enrichModel (prov_models providerData) m)) models"
    by (simp_all add: mapThrowing_Inr_iff)
  with Inr assms show ?thesis
    by (auto simp: enrichWithModelsDev_def Let_def)
qed

lemma enrichWithModelsDev_returns:
  assumes "\<forall>m\<in>set models. fm_pricing m \<noteq> None \<or> fm_id m \<notin> set objectPrototypeKeys"
  shows "\<exists>R. enrichWithModelsDev cmp s models provider = Inr R"
proof (cases "providerCatalog s provider")
  case None
  then show ?thesis by (simp add: enrichWithModelsDev_none)
next
  case (Some providerData)
  from assms have "\<forall>m\<in>set models. \<exists>e. enrichModel (prov_models providerData) m = Inr e"
    using enrichModel_priced enrichModel_plain_id by blast
  then show ?thesis
    by (simp add: enrichWithModelsDev_Inr_iff [OF Some])
qed

lemma enrichWithModelsDev_length:
  "enrichWithModelsDev cmp s models provider = Inr R \<Longrightarrow> length models \<le> length R"
  by (cases "providerCatalog s provider")
    (auto simp: enrichWithModelsDev_none enrichWithModelsDev_Inr_iff)

lemma enrichWithModelsDev_nonempty:
  "enrichWithModelsDev cmp s models provider = Inr R \<Longrightarrow> models \<noteq> [] \<Longrightarrow> R \<noteq> []"
  using enrichWithModelsDev_length [of cmp s models provider R] by auto

lemma enrichWithModelsDev_nth:
  assumes "providerCatalog s provider = Some providerData"
    and "enrichWithModelsDev cmp s models provider = Inr R" and "i < length models"
  shows "enrichModel (prov_models providerData) (models ! i) = Inr (R ! i)"
proof -
  from assms(2) have all: "\<forall>m\<in>set models. \<exists>e. enrichModel (prov_models providerData) m = Inr e"
    and R: "R = map (\<lambda>m. projr (enrichModel (prov_models providerData) m)) models
         @ filter (\<lambda>m. fm_id m \<notin> fm_id ` set models) (getModelsFromModelsDev cmp s provider)"
    by (simp_all add: enrichWithModelsDev_Inr_iff [OF assms(1)])
  from all assms(3) obtain e where "enrichModel (prov_models providerData) (models ! i) = Inr e"
    by (meson nth_mem)
  with assms(3) show ?thesis
    by (simp add: R nth_append)
qed

lemma getModelsFromModelsDev_priced:
  "a \<in> set (getModelsFromModelsDev cmp s provider) \<Longrightarrow> fm_pricing a \<noteq> None"
proof (cases "providerCatalog s provider")
  case None
  assume "a \<in> set (getModelsFromModelsDev cmp s provider)"
  with None show ?thesis by (simp add: getModelsFromModelsDev_def)
next
  case (Some providerData)
  assume "a \<in> set (getModelsFromModelsDev cmp s provider)"
  then show ?thesis
    by (auto simp: getModelsFromModelsDev_set [OF Some] modelsDevToFetchedModel_def)
qed

lemma exampleLoaded_catalog:
  "providerCatalog exampleLoaded OpenAI = map_of exampleCatalog ''openai''"
  by (simp add: providerCatalog_def exampleLoaded_def)

lemma exampleLoaded_openai:
  "providerCatalog exampleLoaded OpenAI
   = Some \<lparr>prov_name = ''OpenAI'', prov_models = prov_models (snd (hd exampleCatalog))\<rparr>"
  by (simp add: exampleLoaded_catalog exampleCatalog_def)


text \<open>
  Claim C6 says that only a missing context length is filled. A context length that is
  present and zero is replaced as well: the model \<open>m1\<close> reported by the provider with
  \<open>contextLength = 0\<close> comes back with the catalogue's \<open>128000\<close>.
\<close>

theorem enrichWithModelsDev_zero_context_counterexample:
  "fm_contextLength exampleZeroContext = Some 0
   \<and> map fm_id (projr (enrichWithModelsDev caseInsensitiveCompare exampleLoaded
          [exampleZeroContext] OpenAI)) = [''m1'', ''m2'']
   \<and> map fm_contextLength (projr (enrichWithModelsDev caseInsensitiveCompare exampleLoaded
          [exampleZeroContext] OpenAI)) = [Some 128000, Some 8192]
   \<and> \<not> isl (enrichWithModelsDev caseInsensitiveCompare exampleLoaded
          [exampleZeroContext] OpenAI)"
  by (simp add: enrichWithModelsDev_def getModelsFromModelsDev_def exampleLoaded_catalog
      exampleCatalog_def exampleZeroContext_def enrichModel_def readProperty_def
      catalogFilter_def modelsDevToFetchedModel_def caseInsensitiveCompare_def lowerCode_def
      Let_def)

text \<open>
  Claim C6, amended. Let the snapshot have a catalogue for the provider.
  \<open>enrichWithModelsDev\<close> returns a list whenever no model of the provider that lacks a
  pricing has an id that the catalogue object only inherits. Let \<open>R\<close> be a list it
  returns.
  \<^item> \<open>R\<close> starts with one model for each of the provider's models, in their order, with
    the same id, name and provider; it continues with exactly the models of
    \<open>getModelsFromModelsDev\<close> whose id is not an id of the provider's models, in the
    order of \<open>getModelsFromModelsDev\<close>.
  \<^item> A pricing that is present is kept. A context length that is present and not zero
    is kept. The flags \<open>chat\<close> and \<open>embedding\<close> are kept. A flag \<open>vision\<close> or \<open>audio\<close>
    that is true stays true.
  \<^item> A model whose id the catalogue object does not have is returned as it is.
  \<^item> For a model whose id is a key of the catalogue: an absent pricing is filled from
    the entry's cost; a context length that is absent or zero is filled from the entry's
    context limit; \<open>vision\<close> (\<open>audio\<close>) is true in \<open>R\<close> exactly when it was true before
    or the entry lists \<open>image\<close> (\<open>audio\<close>) among its input modalities.
  Nothing more is said of a model whose id the catalogue object only inherits.
\<close>

theorem enrichWithModelsDev_merge:
  assumes "providerCatalog s provider = Some providerData"
  shows
    "((\<forall>m\<in>set models. readProperty (prov_models providerData) (fm_id m) = Inherited \<longrightarrow>
          fm_pricing m \<noteq> None) \<longrightarrow>
        (\<exists>R. enrichWithModelsDev cmp s models provider = Inr R))
     \<and> (\<forall>R. enrichWithModelsDev cmp s models provider = Inr R \<longrightarrow>
        length models \<le> length R
        \<and> drop (length models) R
            = filter (\<lambda>m. fm_id m \<notin> fm_id ` set models) (getModelsFromModelsDev cmp s provider)
        \<and> (\<forall>i<length models.
             fm_id (R ! i) = fm_id (models ! i)
             \<and> fm_name (R ! i) = fm_name (models ! i)
             \<and> fm_provider (R ! i) = fm_provider (models ! i)
             \<and> (\<forall>p. fm_pricing (models ! i) = Some p \<longrightarrow> fm_pricing (R ! i) = Some p)
             \<and> (\<forall>n. fm_contextLength (models ! i) = Some n \<and> n \<noteq> 0 \<longrightarrow>
                    fm_contextLength (R ! i) = Some n)
             \<and> capability chat (R ! i) = capability chat (models ! i)
             \<and> capability embedding (R ! i) = capability embedding (models ! i)
             \<and> (capability vision (models ! i) = Some True \<longrightarrow>
                    capability vision (R ! i) = Some True)
             \<and> (capability audio (models ! i) = Some True \<longrightarrow>
                    capability audio (R ! i) = Some True)
             \<and> (case readProperty (prov_models providerData) (fm_id (models ! i)) of
                   Undefined \<Rightarrow> R ! i = models ! i
                 | Inherited \<Rightarrow> True
                 | Own e \<Rightarrow>
                     (fm_pricing (models ! i) = None \<longrightarrow>
                        fm_pricing (R ! i)
                        = Some \<lparr>pr_input = cost_input (md_cost e),
                                pr_output = cost_output (md_cost e),
                                pr_cacheRead = cache_read (md_cost e),
                                pr_cacheWrite = cache_write (md_cost e)\<rparr>)
                     \<and> (fm_contextLength (models ! i) = None
                          \<or> fm_contextLength (models ! i) = Some 0 \<longrightarrow>
                        fm_contextLength (R ! i) = Some (limit_context (md_limit e)))
                     \<and> (capability vision (R ! i) = Some True \<longleftrightarrow>
                        capability vision (models ! i) = Some True
                        \<or> inputIncludes e ''image'' = Some True)
                     \<and> (capability audio (R ! i) = Some True \<longleftrightarrow>
                        capability audio (models ! i) = Some True
                        \<or> inputIncludes e ''audio'' = Some True))))"
proof -
  let ?catalog = "prov_models providerData"
  have returns: "\<exists>R. enrichWithModelsDev cmp s models provider = Inr R"
    if "\<forall>m\<in>set models. readProperty ?catalog (fm_id m) = Inherited \<longrightarrow> fm_pricing m \<noteq> None"
    using that by (simp add: enrichWithModelsDev_Inr_iff [OF assms] enrichModel_returns_iff)
  have result: "length models \<le> length R
        \<and> drop (length models) R
            = filter (\<lambda>m. fm_id m \<notin> fm_id ` set models) (getModelsFromModelsDev cmp s provider)
        \<and> (\<forall>i<length models.
             fm_id (R ! i) = fm_id (models ! i)
             \<and> fm_name (R ! i) = fm_name (models ! i)
             \<and> fm_provider (R ! i) = fm_provider (models ! i)
             \<and> (\<forall>p. fm_pricing (models ! i) = Some p \<longrightarrow> fm_pricing (R ! i) = Some p)
             \<and> (\<forall>n. fm_contextLength (models ! i) = Some n \<and> n \<noteq> 0 \<longrightarrow>
                    fm_contextLength (R ! i) = Some n)
             \<and> capability chat (R ! i) = capability chat (models ! i)
             \<and> capability embedding (R ! i) = capability embedding (models ! i)
             \<and> (capability vision (models ! i) = Some True \<longrightarrow>
                    capability vision (R ! i) = Some True)
             \<and> (capability audio (models ! i) = Some True \<longrightarrow>
                    capability audio (R ! i) = Some True)
             \<and> (case readProperty ?catalog (fm_id (models ! i)) of
                   Undefined \<Rightarrow> R ! i = models ! i
                 | Inherited \<Rightarrow> True
                 | Own e \<Rightarrow>
                     (fm_pricing (models ! i) = None \<longrightarrow>
                        fm_pricing (R ! i)
                        = Some \<lparr>pr_input = cost_input (md_cost e),
                                pr_output = cost_output (md_cost e),
                                pr_cacheRead = cache_read (md_cost e),
                                pr_cacheWrite = cache_write (md_cost e)\<rparr>)
                     \<and> (fm_contextLength (models ! i) = None
                          \<or> fm_contextLength (models ! i) = Some 0 \<longrightarrow>
                        fm_contextLength (R ! i) = Some (limit_context (md_limit e)))
                     \<and> (capability vision (R ! i) = Some True \<longleftrightarrow>
                        capability vision (models ! i) = Some True
                        \<or> inputIncludes e ''image'' = Some True)
                     \<and> (capability audio (R ! i) = Some True \<longleftrightarrow>
                        capability audio (models ! i) = Some True
                        \<or> inputIncludes e ''audio'' = Some True)))"
    if R: "enrichWithModelsDev cmp s models provider = Inr R" for R
  proof -
    have len: "length models \<le> length R"
      using R by (rule enrichWithModelsDev_length)
    have rest: "drop (length models) R
            = filter (\<lambda>m. fm_id m \<notin> fm_id ` set models) (getModelsFromModelsDev cmp s provider)"
      using R by (simp add: enrichWithModelsDev_Inr_iff [OF assms])
    have each: "fm_id (R ! i) = fm_id (models ! i)
             \<and> fm_name (R ! i) = fm_name (models ! i)
             \<and> fm_provider (R ! i) = fm_provider (models ! i)
             \<and> (\<forall>p. fm_pricing (models ! i) = Some p \<longrightarrow> fm_pricing (R ! i) = Some p)
             \<and> (\<forall>n. fm_contextLength (models ! i) = Some n \<and> n \<noteq> 0 \<longrightarrow>
                    fm_contextLength (R ! i) = Some n)
             \<and> capability chat (R ! i) = capability chat (models ! i)
             \<and> capability embedding (R ! i) = capability embedding (models ! i)
             \<and> (capability vision (models ! i) = Some True \<longrightarrow>
                    capability vision (R ! i) = Some True)
             \<and> (capability audio (models ! i) = Some True \<longrightarrow>
                    capability audio (R ! i) = Some True)
             \<and> (case readProperty ?catalog (fm_id (models ! i)) of
                   Undefined \<Rightarrow> R ! i = models ! i
                 | Inherited \<Rightarrow> True
                 | Own e \<Rightarrow>
                     (fm_pricing (models ! i) = None \<longrightarrow>
                        fm_pricing (R ! i)
                        = Some \<lparr>pr_input = cost_input (md_cost e),
                                pr_output = cost_output (md_cost e),
                                pr_cacheRead = cache_read (md_cost e),
                                pr_cacheWrite = cache_write (md_cost e)\<rparr>)
                     \<and> (fm_contextLength (models ! i) = None
                          \<or> fm_contextLength (models ! i) = Some 0 \<longrightarrow>
                        fm_contextLength (R ! i) = Some (limit_context (md_limit e)))
                     \<and> (capability vision (R ! i) = Some True \<longleftrightarrow>
                        capability vision (models ! i) = Some True
                        \<or> inputIncludes e ''image'' = Some True)
                     \<and> (capability audio (R ! i) = Some True \<longleftrightarrow>
                        capability audio (models ! i) = Some True
                        \<or> inputIncludes e ''audio'' = Some True))"
      if i: "i < length models" for i
    proof -
      note nth = enrichWithModelsDev_nth [OF assms R i]
      note kept = enrichModel_kept [OF nth]
      have lookup: "case readProperty ?catalog (fm_id (models ! i)) of
                   Undefined \<Rightarrow> R ! i = models ! i
                 | Inherited \<Rightarrow> True
                 | Own e \<Rightarrow>
                     (fm_pricing (models ! i) = None \<longrightarrow>
                        fm_pricing (R ! i)
                        = Some \<lparr>pr_input = cost_input (md_cost e),
                                pr_output = cost_output (md_cost e),
                                pr_cacheRead = cache_read (md_cost e),
                                pr_cacheWrite = cache_write (md_cost e)\<rparr>)
                     \<and> (fm_contextLength (models ! i) = None
                          \<or> fm_contextLength (models ! i) = Some 0 \<longrightarrow>
                        fm_contextLength (R ! i) = Some (limit_context (md_limit e)))
                     \<and> (capability vision (R ! i) = Some True \<longleftrightarrow>
                        capability vision (models ! i) = Some True
                        \<or> inputIncludes e ''image'' = Some True)
                     \<and> (capability audio (R ! i) = Some True \<longleftrightarrow>
                        capability audio (models ! i) = Some True
                        \<or> inputIncludes e ''audio'' = Some True)"
      proof (cases "readProperty ?catalog (fm_id (models ! i))")
        case (Own e)
        from enrichModel_own [OF Own nth] Own show ?thesis by simp
      next
        case Inherited
        then show ?thesis by simp
      next
        case Undefined
        with nth show ?thesis by (simp add: enrichModel_undefined)
      qed
      from kept lookup show ?thesis by simp
    qed
    from len rest each show ?thesis by blast
  qed
  from returns result show ?thesis by blast
qed

theorem enrichWithModelsDev_merge_witness:
  "map fm_id (projr (enrichWithModelsDev caseInsensitiveCompare exampleLoaded exampleApiModels
        OpenAI)) = [''m1'', ''m2'']
   \<and> map fm_pricing (projr (enrichWithModelsDev caseInsensitiveCompare exampleLoaded
        exampleApiModels OpenAI))
     = [Some \<lparr>pr_input = 1, pr_output = 2, pr_cacheRead = None, pr_cacheWrite = None\<rparr>,
        Some \<lparr>pr_input = 3, pr_output = 4, pr_cacheRead = None, pr_cacheWrite = None\<rparr>]"
proof -
  have plain: "\<forall>m\<in>set exampleApiModels.
      readProperty (prov_models \<lparr>prov_name = ''OpenAI'',
        prov_models = prov_models (snd (hd exampleCatalog))\<rparr>) (fm_id m) = Inherited \<longrightarrow>
      fm_pricing m \<noteq> None"
    by (simp add: exampleApiModels_def readProperty_def exampleCatalog_def)
  have computed: "map fm_id (projr (enrichWithModelsDev caseInsensitiveCompare exampleLoaded
        exampleApiModels OpenAI)) = [''m1'', ''m2'']
   \<and> map fm_pricing (projr (enrichWithModelsDev caseInsensitiveCompare exampleLoaded
        exampleApiModels OpenAI))
     = [Some \<lparr>pr_input = 1, pr_output = 2, pr_cacheRead = None, pr_cacheWrite = None\<rparr>,
        Some \<lparr>pr_input = 3, pr_output = 4, pr_cacheRead = None, pr_cacheWrite = None\<rparr>]"
    by (simp add: enrichWithModelsDev_def getModelsFromModelsDev_def exampleLoaded_catalog
      exampleCatalog_def exampleApiModels_def enrichModel_def readProperty_def catalogFilter_def
      modelsDevToFetchedModel_def caseInsensitiveCompare_def lowerCode_def Let_def)
  from enrichWithModelsDev_merge [OF exampleLoaded_openai, of exampleApiModels
      caseInsensitiveCompare] plain computed
  show ?thesis
    by blast
qed

lemma enrichModel_converted:
  assumes "catalogKeyedById providerData" and "(key, m) \<in> set (prov_models providerData)"
  shows "enrichModel (prov_models providerData) (modelsDevToFetchedModel m provider)
         = Inr (modelsDevToFetchedModel m provider)"
proof -
  from assms have "md_id m = key"
    by (auto simp: catalogKeyedById_def list_all_iff)
  with assms have "map_of (prov_models providerData) (md_id m) = Some m"
    by (simp add: catalogKeyedById_def)
  then have own: "readProperty (prov_models providerData)
      (fm_id (modelsDevToFetchedModel m provider)) = Own m"
    by (simp add: readProperty_Own_iff modelsDevToFetchedModel_def)
  show ?thesis
    unfolding enrichModel_own_eq [OF own]
    by (simp add: modelsDevToFetchedModel_def capability_def jsOr_def)
qed

lemma enrichModel_catalog_model:
  assumes "providerCatalog s provider = Some providerData"
    and "catalogKeyedById providerData"
    and "a \<in> set (getModelsFromModelsDev cmp s provider)"
  shows "enrichModel (prov_models providerData) a = Inr a"
proof -
  from assms(3) obtain key m where "(key, m) \<in> set (prov_models providerData)"
    and "a = modelsDevToFetchedModel m provider"
    by (auto simp: getModelsFromModelsDev_set [OF assms(1)])
  with assms(2) show ?thesis
    by (simp add: enrichModel_converted)
qed

lemma enrichWithModelsDev_again:
  assumes "enrichWithModelsDev cmp s models provider = Inr R"
  shows "\<exists>R'. enrichWithModelsDev cmp s R provider = Inr R' \<and>
           (\<forall>i<length models. R' ! i = R ! i)"
    and "(\<forall>providerData. providerCatalog s provider = Some providerData \<longrightarrow>
            catalogKeyedById providerData) \<Longrightarrow>
         enrichWithModelsDev cmp s R provider = Inr R"
proof -
  have "(\<exists>R'. enrichWithModelsDev cmp s R provider = Inr R' \<and>
           (\<forall>i<length models. R' ! i = R ! i))
      \<and> ((\<forall>providerData. providerCatalog s provider = Some providerData \<longrightarrow>
            catalogKeyedById providerData) \<longrightarrow>
         enrichWithModelsDev cmp s R provider = Inr R)"
  proof (cases "providerCatalog s provider")
    case None
    with assms show ?thesis by (simp add: enrichWithModelsDev_none)
  next
    case (Some providerData)
    let ?E = "enrichModel (prov_models providerData)"
    let ?g = "\<lambda>m. projr (?E m)"
    let ?C = "getModelsFromModelsDev cmp s provider"
    let ?A = "filter (\<lambda>m. fm_id m \<notin> fm_id ` set models) ?C"
    from assms have all: "\<forall>m\<in>set models. \<exists>e. ?E m = Inr e"
      and R: "R = map ?g models @ ?A"
      by (simp_all add: enrichWithModelsDev_Inr_iff [OF Some])
    have first: "?E (?g m) = Inr (?g m)" if "m \<in> set models" for m
    proof -
      from all that obtain e where "?E m = Inr e" by blast
      then show ?thesis using enrichModel_idem [of "prov_models providerData" m e] by simp
    qed
    have second: "\<exists>e. ?E a = Inr e" if "a \<in> set ?A" for a
      using that getModelsFromModelsDev_priced [of a cmp s provider]
      by (simp add: enrichModel_priced)
    have allR: "\<forall>x\<in>set R. \<exists>e. ?E x = Inr e"
      unfolding R using first second by auto
    have "?g (?g m) = ?g m" if "m \<in> set models" for m
      using first [OF that] by simp
    then have gg: "map ?g (map ?g models) = map ?g models"
      by auto
    define R' where "R' = map ?g R @ filter (\<lambda>m. fm_id m \<notin> fm_id ` set R) ?C"
    have again: "enrichWithModelsDev cmp s R provider = Inr R'"
      using allR by (simp add: enrichWithModelsDev_Inr_iff [OF Some] R'_def)
    have mR: "map ?g R = map ?g models @ map ?g ?A"
      unfolding R by (simp only: map_append gg)
    have R'_eq: "R' = map ?g models @ map ?g ?A @ filter (\<lambda>m. fm_id m \<notin> fm_id ` set R) ?C"
      unfolding R'_def mR by simp
    have same: "R' ! i = R ! i" if "i < length models" for i
      using that by (simp add: R'_eq R nth_append)
    have keyed: "R' = R" if "catalogKeyedById providerData"
    proof -
      have "map ?g ?A = ?A"
        by (rule map_idI) (auto simp: enrichModel_catalog_model [OF Some that])
      moreover have "fm_id ` set (map ?g models) = fm_id ` set models"
      proof -
        have "fm_id (?g m) = fm_id m" if "m \<in> set models" for m
        proof -
          from all that obtain e where "?E m = Inr e" by blast
          then show ?thesis using enrichModel_kept(1) [of "prov_models providerData" m e] by simp
        qed
        then show ?thesis by (auto simp: image_iff)
      qed
      then have "fm_id ` set R = fm_id ` set models \<union> fm_id ` set ?A"
        unfolding R by (simp add: image_Un)
      then have "filter (\<lambda>m. fm_id m \<notin> fm_id ` set R) ?C = []"
        by (auto simp: filter_empty_conv)
      ultimately show ?thesis
        by (simp add: R'_eq R)
    qed
    from again same keyed Some show ?thesis
      by auto
  qed
  then show "\<exists>R'. enrichWithModelsDev cmp s R provider = Inr R' \<and>
           (\<forall>i<length models. R' ! i = R ! i)"
    and "(\<forall>providerData. providerCatalog s provider = Some providerData \<longrightarrow>
            catalogKeyedById providerData) \<Longrightarrow>
         enrichWithModelsDev cmp s R provider = Inr R"
    by blast+
qed

lemma exampleMiskeyed_catalog:
  "providerCatalog exampleMiskeyed OpenAI =
     Some \<lparr>prov_name = ''OpenAI'',
       prov_models =
         [(''x'', \<lparr>md_id = ''y'', md_name = ''A'',
                    md_cost = \<lparr>cost_input = 1, cost_output = 2, cache_read = None,
                               cache_write = None\<rparr>,
                    md_limit = \<lparr>limit_context = 0, limit_output = 4096\<rparr>,
                    md_modalities = None, md_status = None\<rparr>),
          (''y'', \<lparr>md_id = ''z'', md_name = ''B'',
                    md_cost = \<lparr>cost_input = 3, cost_output = 4, cache_read = None,
                               cache_write = None\<rparr>,
                    md_limit = \<lparr>limit_context = 100, limit_output = 4096\<rparr>,
                    md_modalities = None, md_status = None\<rparr>)]\<rparr>"
  by (simp add: providerCatalog_def exampleMiskeyed_def)

text \<open>
  Claim C5 says that enriching the output of an enrichment again gives the same result.
  It does not for every catalogue. In \<open>exampleMiskeyed\<close> the entry with id \<open>y\<close> is stored
  under the key \<open>x\<close>, and the key \<open>y\<close> holds another entry. The first enrichment of the
  empty list returns the two catalogue models, with context lengths \<open>0\<close> and \<open>100\<close>; the
  second looks the model \<open>y\<close> up under its id, finds the other entry and replaces the
  \<open>0\<close> by that entry's \<open>100\<close>.
\<close>

theorem enrichWithModelsDev_idempotence_counterexample:
  "enrichWithModelsDev caseInsensitiveCompare exampleMiskeyed [] OpenAI
     = Inr (getModelsFromModelsDev caseInsensitiveCompare exampleMiskeyed OpenAI)
   \<and> map fm_contextLength (getModelsFromModelsDev caseInsensitiveCompare exampleMiskeyed OpenAI)
       = [Some 0, Some 100]
   \<and> \<not> isl (enrichWithModelsDev caseInsensitiveCompare exampleMiskeyed
         (getModelsFromModelsDev caseInsensitiveCompare exampleMiskeyed OpenAI) OpenAI)
   \<and> map fm_contextLength
         (projr (enrichWithModelsDev caseInsensitiveCompare exampleMiskeyed
            (getModelsFromModelsDev caseInsensitiveCompare exampleMiskeyed OpenAI) OpenAI))
       = [Some 100, Some 100]"
  by (simp add: enrichWithModelsDev_def getModelsFromModelsDev_def exampleMiskeyed_catalog
      enrichModel_def readProperty_def objectPrototypeKeys_def catalogFilter_def
      modelsDevToFetchedModel_def caseInsensitiveCompare_def lowerCode_def Let_def)

text \<open>
  Claim C5, amended. Enrichment never replaces a pricing. \<open>enrichWithModelsDev\<close> returns a
  list whenever every model of the provider carries a pricing. Whenever it returns a
  list, then whatever the catalogue holds: a model of the provider that carries a
  pricing comes back at the same position, with the same id and the same pricing; and
  enriching the returned list again returns a list that agrees with it on each of the
  provider's models. On a catalogue keyed by model id (every entry stored under its
  own id) enriching the returned list again returns the same list.
\<close>

theorem enrichWithModelsDev_pricing_preserved_idempotent:
  "((\<forall>m\<in>set models. fm_pricing m \<noteq> None) \<longrightarrow>
       (\<exists>R. enrichWithModelsDev cmp s models provider = Inr R))
   \<and> (\<forall>R. enrichWithModelsDev cmp s models provider = Inr R \<longrightarrow>
        (\<forall>i<length models. \<forall>p. fm_pricing (models ! i) = Some p \<longrightarrow>
           i < length R \<and> fm_id (R ! i) = fm_id (models ! i) \<and> fm_pricing (R ! i) = Some p)
        \<and> (\<exists>R'. enrichWithModelsDev cmp s R provider = Inr R' \<and>
              (\<forall>i<length models. R' ! i = R ! i))
        \<and> ((\<forall>providerData. providerCatalog s provider = Some providerData \<longrightarrow>
               catalogKeyedById providerData) \<longrightarrow>
             enrichWithModelsDev cmp s R provider = Inr R))"
proof -
  have returns: "\<exists>R. enrichWithModelsDev cmp s models provider = Inr R"
    if "\<forall>m\<in>set models. fm_pricing m \<noteq> None"
    using that by (intro enrichWithModelsDev_returns) blast
  have pricing: "i < length R \<and> fm_id (R ! i) = fm_id (models ! i) \<and> fm_pricing (R ! i) = Some p"
    if R: "enrichWithModelsDev cmp s models provider = Inr R"
      and i: "i < length models" and p: "fm_pricing (models ! i) = Some p" for R i p
  proof (cases "providerCatalog s provider")
    case None
    with R i p show ?thesis by (simp add: enrichWithModelsDev_none)
  next
    case (Some providerData)
    note nth = enrichWithModelsDev_nth [OF Some R i]
    from i enrichWithModelsDev_length [OF R] have "i < length R" by simp
    with enrichModel_kept(1) [OF nth] enrichModel_kept(6) [OF nth p] show ?thesis by simp
  qed
  from returns pricing enrichWithModelsDev_again show ?thesis
    by blast
qed

theorem enrichWithModelsDev_pricing_preserved_idempotent_witness:
  "map fm_pricing (projr (enrichWithModelsDev caseInsensitiveCompare exampleLoaded
      examplePricedModels OpenAI))
     = [Some \<lparr>pr_input = 9, pr_output = 9, pr_cacheRead = None, pr_cacheWrite = None\<rparr>,
        Some \<lparr>pr_input = 3, pr_output = 4, pr_cacheRead = None, pr_cacheWrite = None\<rparr>]
   \<and> enrichWithModelsDev caseInsensitiveCompare exampleLoaded
       (projr (enrichWithModelsDev caseInsensitiveCompare exampleLoaded examplePricedModels
          OpenAI)) OpenAI
     = enrichWithModelsDev caseInsensitiveCompare exampleLoaded examplePricedModels OpenAI"
proof -
  let ?first = "enrichWithModelsDev caseInsensitiveCompare exampleLoaded examplePricedModels
      OpenAI"
  have priced: "\<forall>m\<in>set examplePricedModels. fm_pricing m \<noteq> None"
    by (simp add: examplePricedModels_def)
  have keyed: "\<forall>providerData. providerCatalog exampleLoaded OpenAI = Some providerData \<longrightarrow>
      catalogKeyedById providerData"
    by (simp add: exampleLoaded_catalog exampleCatalog_def catalogKeyedById_def)
  have prices: "map fm_pricing (projr ?first)
     = [Some \<lparr>pr_input = 9, pr_output = 9, pr_cacheRead = None, pr_cacheWrite = None\<rparr>,
        Some \<lparr>pr_input = 3, pr_output = 4, pr_cacheRead = None, pr_cacheWrite = None\<rparr>]"
    by (simp add: enrichWithModelsDev_def getModelsFromModelsDev_def exampleLoaded_catalog
      exampleCatalog_def examplePricedModels_def enrichModel_def readProperty_def
      catalogFilter_def modelsDevToFetchedModel_def caseInsensitiveCompare_def lowerCode_def
      Let_def)
  note inst = enrichWithModelsDev_pricing_preserved_idempotent
    [of examplePricedModels caseInsensitiveCompare exampleLoaded OpenAI]
  from inst priced obtain R where R: "?first = Inr R"
    by blast
  with inst keyed have "enrichWithModelsDev caseInsensitiveCompare exampleLoaded R OpenAI = Inr R"
    by blast
  with R prices show ?thesis
    by simp
qed

section \<open>Properties of \<open>fetchModels\<close>\<close>

lemma getStaticFallbackModels_nonempty: "getStaticFallbackModels provider \<noteq> []"
  by (cases provider) (simp_all add: getStaticFallbackModels_def)

lemma getStaticFallbackModels_plain_ids:
  "m \<in> set (getStaticFallbackModels provider) \<Longrightarrow> fm_id m \<notin> set objectPrototypeKeys"
  by (cases provider) (auto simp: getStaticFallbackModels_def objectPrototypeKeys_def)

text \<open>The three paths of \<open>fetchModels\<close>, each as an equation.\<close>

lemma fetchModels_no_key:
  assumes "trim apiKey = []"
  shows "fetchModels cmp env s provider apiKey options =
     (let s1 = fst (ensureModelsDevData (env_now env) (env_catalogReply env)
                      (env_catalogTime env) s);
          requests = snd (ensureModelsDevData (env_now env) (env_catalogReply env)
                      (env_catalogTime env) s);
          catalogModels = getModelsFromModelsDev cmp s1 provider
      in if catalogModels \<noteq> []
         then (\<lparr>r_success = True, r_models = catalogModels, r_error = None,
                r_cachedAt = None, r_source = Some ModelsDev\<rparr>, s1, requests)
         else (\<lparr>r_success = False, r_models = getStaticFallbackModels provider,
                r_error = Some ''API key is required'', r_cachedAt = None,
                r_source = Some Static\<rparr>, s1, requests))"
  using assms by (simp add: fetchModels_def Let_def split: prod.splits)

lemma fetchModels_hit:
  assumes "trim apiKey \<noteq> []"
    and "freshCacheEntry s (cacheKey provider apiKey) options (env_now env) = Some cached"
  shows "fetchModels cmp env s provider apiKey options =
     (\<lparr>r_success = True, r_models = ce_models cached, r_error = None,
       r_cachedAt = Some (ce_timestamp cached), r_source = Some (ce_source cached)\<rparr>, s, [])"
  using assms by (simp add: fetchModels_def Let_def)

lemma fetchModels_miss:
  assumes "trim apiKey \<noteq> []"
    and "freshCacheEntry s (cacheKey provider apiKey) options (env_now env) = None"
  shows "fetchModels cmp env s provider apiKey options =
     (let s1 = fst (ensureModelsDevData (env_now env) (env_catalogReply env)
                      (env_catalogTime env) s);
          requests1 = snd (ensureModelsDevData (env_now env) (env_catalogReply env)
                      (env_catalogTime env) s);
          models = fst (resolved cmp s1 provider (fst (callProvider env provider options)));
          source = snd (resolved cmp s1 provider (fst (callProvider env provider options)))
      in case (if provider \<noteq> OpenRouter then enrichWithModelsDev cmp s1 models provider
               else Inr models) of
           Inr models' \<Rightarrow>
             (\<lparr>r_success = True, r_models = models', r_error = None, r_cachedAt = None,
               r_source = Some source\<rparr>,
              s1\<lparr>cache := AList.update (cacheKey provider apiKey)
                   \<lparr>ce_models = models', ce_timestamp = env_storeTime env, ce_source = source\<rparr>
                   (cache s1)\<rparr>,
              requests1 @ snd (callProvider env provider options))
         | Inl error \<Rightarrow>
             (\<lparr>r_success = False, r_models = getStaticFallbackModels provider,
               r_error = Some (if env_errorMessage env \<noteq> [] then env_errorMessage env
                               else ''Failed to fetch models''),
               r_cachedAt = None, r_source = Some Static\<rparr>,
              s1, requests1 @ snd (callProvider env provider options)))"
  using assms
  by (cases "fst (callProvider env provider options)"; cases "provider = OpenRouter")
    (simp_all add: fetchModels_def resolved_def Let_def case_prod_unfold split: sum.splits)

text \<open>
  After a failed provider fetch the enrichment cannot throw: the catalogue's models all
  carry a pricing, and no id of a static list is a property of \<open>Object.prototype\<close>.
\<close>

lemma fallback_enrichment_returns:
  "\<exists>R. (if provider \<noteq> OpenRouter
          then enrichWithModelsDev cmp s1 (fst (resolved cmp s1 provider (Inl apiError))) provider
          else Inr (fst (resolved cmp s1 provider (Inl apiError)))) = Inr R \<and> R \<noteq> []"
proof -
  let ?models = "fst (resolved cmp s1 provider (Inl apiError))"
  have nonempty: "?models \<noteq> []"
    by (simp add: resolved_def getStaticFallbackModels_nonempty)
  have "\<forall>m\<in>set ?models. fm_pricing m \<noteq> None \<or> fm_id m \<notin> set objectPrototypeKeys"
    using getModelsFromModelsDev_priced [of _ cmp s1 provider]
      getStaticFallbackModels_plain_ids [of _ provider]
    by (auto simp: resolved_def)
  then obtain R where R: "enrichWithModelsDev cmp s1 ?models provider = Inr R"
    using enrichWithModelsDev_returns by blast
  with nonempty have "R \<noteq> []"
    by (rule enrichWithModelsDev_nonempty [rotated -1])
  with R nonempty show ?thesis
    by auto
qed

lemma fetchModels_cache_after:
  assumes "trim apiKey \<noteq> []"
    and "fetchModels cmp env s provider apiKey options = (r, s', requests)"
    and "r_success r"
  shows "\<exists>entry. map_of (cache s') (cacheKey provider apiKey) = Some entry \<and>
           ce_models entry = r_models r \<and> r_source r = Some (ce_source entry) \<and>
           r_error r = None"
proof (cases "freshCacheEntry s (cacheKey provider apiKey) options (env_now env)")
  case None
  from fetchModels_miss [OF assms(1) None, of cmp] assms(2,3) show ?thesis
    by (auto simp: Let_def update_conv' split: sum.splits)
next
  case (Some cached)
  then have "map_of (cache s) (cacheKey provider apiKey) = Some cached"
    by (auto simp: freshCacheEntry_def split: if_splits option.splits)
  with fetchModels_hit [OF assms(1) Some, of cmp] assms(2) show ?thesis
    by auto
qed

lemma exampleEnv_fields:
  "env_now (exampleEnv c p) = 5000"
  "env_catalogReply (exampleEnv c p) = c"
  "env_catalogTime (exampleEnv c p) = 5100"
  "env_providerReply (exampleEnv c p) = p"
  "env_storeTime (exampleEnv c p) = 5200"
  "env_errorMessage (exampleEnv c p) = ''Cannot read properties of undefined''"
  by (simp_all add: exampleEnv_def)

lemma example_key: "trim ''sk-abc'' \<noteq> []"
  by (simp add: trim_def isWhiteSpace_def)

lemma example_ensure_loaded:
  "ensureModelsDevData 5000 (Status200 exampleCatalog (Some ''v2'')) 5100 initialService
   = (exampleLoaded, [CatalogGet None])"
  by (simp add: ensureModelsDevData_def initialService_def exampleLoaded_def truthyString_def)

lemma example_ensure_offline:
  "ensureModelsDevData 5000 (TransportFailure ''offline'') 5100 initialService
   = (initialService, [CatalogGet None])"
  by (simp add: ensureModelsDevData_def initialService_def truthyString_def)

lemma example_no_catalog: "getModelsFromModelsDev cmp initialService provider = []"
  by (simp add: getModelsFromModelsDev_def providerCatalog_def initialService_def)

lemma example_no_cache: "freshCacheEntry initialService key options now = None"
  by (simp add: freshCacheEntry_def initialService_def)

lemma example_no_enrich:
  "enrichWithModelsDev cmp initialService models provider = Inr models"
  by (simp add: enrichWithModelsDev_def providerCatalog_def initialService_def)

lemma exampleNoKeyCall_value:
  "exampleNoKeyCall =
     (\<lparr>r_success = False, r_models = getStaticFallbackModels OpenAI,
       r_error = Some ''API key is required'', r_cachedAt = None, r_source = Some Static\<rparr>,
      initialService, [CatalogGet None])"
  by (simp add: exampleNoKeyCall_def fetchModels_no_key trim_def exampleEnv_fields
      example_ensure_offline example_no_catalog Let_def)

lemma exampleDegradedCall_value:
  "fst exampleDegradedCall =
     \<lparr>r_success = True, r_models = getStaticFallbackModels OpenAI, r_error = None,
      r_cachedAt = None, r_source = Some Static\<rparr>"
  by (simp add: exampleDegradedCall_def fetchModels_miss [OF example_key example_no_cache]
      exampleEnv_fields example_ensure_offline example_no_catalog Let_def resolved_def
      callProvider_def example_no_enrich)

lemma exampleConstructor_throws:
  "enrichWithModelsDev caseInsensitiveCompare exampleLoaded [exampleConstructorModel] OpenAI
   = Inl TypeError"
  by (simp add: enrichWithModelsDev_def exampleLoaded_catalog exampleCatalog_def
      exampleConstructorModel_def enrichModel_def readProperty_def objectPrototypeKeys_def
      Let_def)

lemma exampleThrowingCall_value:
  "exampleThrowingCall =
     (\<lparr>r_success = False, r_models = getStaticFallbackModels OpenAI,
       r_error = Some ''Cannot read properties of undefined'', r_cachedAt = None,
       r_source = Some Static\<rparr>,
      exampleLoaded, [CatalogGet None, ProviderList OpenAI])"
  by (simp add: exampleThrowingCall_def fetchModels_miss [OF example_key example_no_cache]
      exampleEnv_fields example_ensure_loaded Let_def resolved_def callProvider_def
      exampleConstructor_throws)

lemma fetchModels_fallback:
  assumes "trim apiKey \<noteq> []"
    and "freshCacheEntry s (cacheKey provider apiKey) options (env_now env) = None"
    and "fst (callProvider env provider options) = Inl apiError"
  shows "\<exists>R. R \<noteq> [] \<and>
     fst (fetchModels cmp env s provider apiKey options) =
       \<lparr>r_success = True, r_models = R, r_error = None, r_cachedAt = None,
        r_source = Some (if getModelsFromModelsDev cmp
                             (fst (ensureModelsDevData (env_now env) (env_catalogReply env)
                                     (env_catalogTime env) s)) provider \<noteq> []
                         then ModelsDev else Static)\<rparr>"
proof -
  let ?s1 = "fst (ensureModelsDevData (env_now env) (env_catalogReply env)
                    (env_catalogTime env) s)"
  from fallback_enrichment_returns [of provider cmp ?s1 apiError]
  obtain R where R: "(if provider \<noteq> OpenRouter
          then enrichWithModelsDev cmp ?s1 (fst (resolved cmp ?s1 provider (Inl apiError))) provider
          else Inr (fst (resolved cmp ?s1 provider (Inl apiError)))) = Inr R" and "R \<noteq> []"
    by blast
  have "snd (resolved cmp ?s1 provider (Inl apiError))
      = (if getModelsFromModelsDev cmp ?s1 provider \<noteq> [] then ModelsDev else Static)"
    by (simp add: resolved_def)
  with R \<open>R \<noteq> []\<close> show ?thesis
    unfolding fetchModels_miss [OF assms(1,2)] Let_def assms(3)
    by (intro exI [of _ R]) simp
qed



text \<open>
  Claim C2 says that \<open>success = false\<close> needs all three tiers to be exhausted. It does
  not: without a credential the provider tier is skipped, and when the catalogue yields
  no model the result is \<open>success = false\<close> although the static list is there and is
  returned. The only request of that call is the one for the catalogue.
\<close>

theorem fetchModels_hard_failure_counterexample:
  "r_success (fst exampleNoKeyCall) = False
   \<and> r_models (fst exampleNoKeyCall) = getStaticFallbackModels OpenAI
   \<and> map fm_id (r_models (fst exampleNoKeyCall)) = [''gpt-4o'', ''gpt-4o-mini'']
   \<and> snd (snd exampleNoKeyCall) = [CatalogGet None]"
  by (simp add: exampleNoKeyCall_value getStaticFallbackModels_def)

text \<open>
  Claim C2, amended. \<open>fetchModels\<close> returns \<open>success = false\<close> in exactly two situations.
  One: the credential is empty or blank and the catalogue, as it stands after
  \<open>ensureModelsDevData\<close>, yields no model for the provider; the error is
  \<open>API key is required\<close>. Two: with a credential and no cache hit the provider's fetch
  succeeds and the enrichment of its models throws; the outer \<open>catch\<close> then returns the
  message of the error, or \<open>Failed to fetch models\<close> when that is empty. Both results
  carry the static list and the source \<open>static\<close>. In every other situation (a cache hit,
  an enrichment that returns, a provider fetch that fails and falls back to the
  catalogue or to the static list) \<open>success = true\<close>.
\<close>

theorem fetchModels_success_iff:
  "(r_success (fst (fetchModels cmp env s provider apiKey options)) \<longleftrightarrow>
      \<not> (trim apiKey = [] \<and>
         getModelsFromModelsDev cmp
           (fst (ensureModelsDevData (env_now env) (env_catalogReply env)
                   (env_catalogTime env) s)) provider = [])
      \<and> \<not> (trim apiKey \<noteq> [] \<and>
         freshCacheEntry s (cacheKey provider apiKey) options (env_now env) = None \<and>
         provider \<noteq> OpenRouter \<and>
         (\<exists>apiModels. fst (callProvider env provider options) = Inr apiModels \<and>
            enrichWithModelsDev cmp
              (fst (ensureModelsDevData (env_now env) (env_catalogReply env)
                      (env_catalogTime env) s)) apiModels provider = Inl TypeError)))
   \<and> (\<not> r_success (fst (fetchModels cmp env s provider apiKey options)) \<longrightarrow>
        r_models (fst (fetchModels cmp env s provider apiKey options))
          = getStaticFallbackModels provider
        \<and> r_source (fst (fetchModels cmp env s provider apiKey options)) = Some Static
        \<and> r_error (fst (fetchModels cmp env s provider apiKey options))
          = Some (if trim apiKey = [] then ''API key is required''
                  else if env_errorMessage env \<noteq> [] then env_errorMessage env
                  else ''Failed to fetch models''))"
proof (cases "trim apiKey = []")
  case True
  then show ?thesis
    by (simp add: fetchModels_no_key Let_def)
next
  case False
  let ?s1 = "fst (ensureModelsDevData (env_now env) (env_catalogReply env)
                    (env_catalogTime env) s)"
  show ?thesis
  proof (cases "freshCacheEntry s (cacheKey provider apiKey) options (env_now env)")
    case (Some cached)
    with False show ?thesis
      by (simp add: fetchModels_hit)
  next
    case None
    show ?thesis
    proof (cases "fst (callProvider env provider options)")
      case (Inl apiError)
      from fetchModels_fallback [OF False None Inl, of cmp]
      have "r_success (fst (fetchModels cmp env s provider apiKey options))"
        by auto
      with False Inl show ?thesis by simp
    next
      case (Inr apiModels)
      have models: "fst (resolved cmp ?s1 provider (Inr apiModels)) = apiModels"
        by (simp add: resolved_def)
      show ?thesis
      proof (cases "provider = OpenRouter")
        case True
        show ?thesis
          unfolding fetchModels_miss [OF False None] Let_def Inr models
          using False None Inr True by simp
      next
        case notOpenRouter: False
        show ?thesis
        proof (cases "enrichWithModelsDev cmp ?s1 apiModels provider")
          case (Inl e)
          then have "enrichWithModelsDev cmp ?s1 apiModels provider = Inl TypeError"
            by (cases e) simp
          then show ?thesis
            unfolding fetchModels_miss [OF False None] Let_def Inr models
            using False None Inr notOpenRouter by simp
        next
          case enriched: (Inr R)
          then show ?thesis
            unfolding fetchModels_miss [OF False None] Let_def Inr models
            using False None Inr notOpenRouter by simp
        qed
      qed
    qed
  qed
qed

theorem fetchModels_success_iff_witness:
  "r_success (fst exampleDegradedCall)
   \<and> \<not> r_success (fst exampleNoKeyCall)
   \<and> r_error (fst exampleNoKeyCall) = Some ''API key is required''
   \<and> \<not> r_success (fst exampleThrowingCall)
   \<and> r_error (fst exampleThrowingCall) = Some ''Cannot read properties of undefined''"
  using fetchModels_success_iff [of caseInsensitiveCompare
      "exampleEnv (TransportFailure ''offline'') (Inl ''401 Unauthorized'')"
      initialService OpenAI "''sk-abc''" None]
    fetchModels_success_iff [of caseInsensitiveCompare
      "exampleEnv (TransportFailure ''offline'') (Inr [])" initialService OpenAI "[]" None]
    fetchModels_success_iff [of caseInsensitiveCompare
      "exampleEnv (Status200 exampleCatalog (Some ''v2'')) (Inr [exampleConstructorModel])"
      initialService OpenAI "''sk-abc''" None]
  by (simp add: exampleDegradedCall_def [symmetric] exampleNoKeyCall_def [symmetric]
      exampleThrowingCall_def [symmetric]
      exampleDegradedCall_value exampleNoKeyCall_value exampleThrowingCall_value)

text \<open>
  Claim C3 says that a result degraded by a provider failure carries the failure message
  in its error field. It does not: the message is only written to the console. On a
  failed provider fetch with the catalogue unreachable the result comes from the static
  list and has no error.
\<close>

theorem fetchModels_fallback_error_counterexample:
  "r_source (fst exampleDegradedCall) = Some Static
   \<and> r_error (fst exampleDegradedCall) = None
   \<and> r_success (fst exampleDegradedCall) = True
   \<and> map fm_id (r_models (fst exampleDegradedCall)) = [''gpt-4o'', ''gpt-4o-mini'']"
  by (simp add: exampleDegradedCall_value getStaticFallbackModels_def)

text \<open>
  Claim C3, amended. Take a call of \<open>fetchModels\<close> with a non-blank credential that is
  not served from the result cache, and let the provider's own fetch fail. Then the
  source of the result is not \<open>api\<close>, the error field is absent and \<open>success = true\<close>
  (the failure is not recorded in the result), and the models list is not empty: it
  holds the catalogue's models, or else the static list, which exists for each provider.
\<close>

theorem fetchModels_provider_failure_result:
  assumes "trim apiKey \<noteq> []"
    and "freshCacheEntry s (cacheKey provider apiKey) options (env_now env) = None"
    and "fst (callProvider env provider options) = Inl apiError"
  shows "r_source (fst (fetchModels cmp env s provider apiKey options)) \<noteq> Some Api
       \<and> r_error (fst (fetchModels cmp env s provider apiKey options)) = None
       \<and> r_success (fst (fetchModels cmp env s provider apiKey options))
       \<and> r_models (fst (fetchModels cmp env s provider apiKey options)) \<noteq> []"
  using fetchModels_fallback [OF assms, of cmp] by (auto split: if_splits)

theorem fetchModels_provider_failure_result_witness:
  "r_source (fst exampleDegradedCall) \<noteq> Some Api
   \<and> r_error (fst exampleDegradedCall) = None
   \<and> r_success (fst exampleDegradedCall)
   \<and> r_models (fst exampleDegradedCall) \<noteq> []"
proof -
  let ?env = "exampleEnv (TransportFailure ''offline'') (Inl ''401 Unauthorized'')"
  have failed: "fst (callProvider ?env OpenAI None) = Inl ''401 Unauthorized''"
    by (simp add: callProvider_def exampleEnv_fields)
  from fetchModels_provider_failure_result [OF example_key example_no_cache failed,
      of caseInsensitiveCompare]
  show ?thesis
    by (simp add: exampleDegradedCall_def)
qed

lemma freshCacheEntry_young:
  "\<not> forceRefresh options \<Longrightarrow> map_of (cache s) key = Some entry
   \<Longrightarrow> now - ce_timestamp entry < CACHE_TTL
   \<Longrightarrow> freshCacheEntry s key options now = Some entry"
  by (simp add: freshCacheEntry_def)

lemma exampleFirstCall_value:
  "\<exists>R. exampleFirstCall =
     (\<lparr>r_success = True, r_models = R, r_error = None, r_cachedAt = None,
       r_source = Some Api\<rparr>,
      exampleLoaded\<lparr>cache := [(cacheKey OpenAI ''sk-abc'',
         \<lparr>ce_models = R, ce_timestamp = 5200, ce_source = Api\<rparr>)]\<rparr>,
      [CatalogGet None, ProviderList OpenAI])"
proof -
  have "\<forall>m\<in>set exampleApiModels. fm_pricing m \<noteq> None \<or> fm_id m \<notin> set objectPrototypeKeys"
    by (simp add: exampleApiModels_def objectPrototypeKeys_def)
  then obtain R where
    "enrichWithModelsDev caseInsensitiveCompare exampleLoaded exampleApiModels OpenAI = Inr R"
    using enrichWithModelsDev_returns by blast
  then show ?thesis
    by (simp add: exampleFirstCall_def fetchModels_miss [OF example_key example_no_cache]
        Let_def exampleEnv_fields example_ensure_loaded resolved_def callProvider_def
        exampleLoaded_def)
qed

text \<open>
  Claim C4. Let a call of \<open>fetchModels\<close> with a non-blank credential have succeeded with
  the result \<open>r\<close>. In any later state that still holds, under the key of this provider
  and credential, the entry the call left in the result cache, a call without
  \<open>forceRefresh\<close> made less than five minutes (\<open>CACHE_TTL\<close>) after the entry's time stamp
  returns the same result (the same models, source, success and absent error, with
  \<open>cachedAt\<close> set to the entry's time stamp), leaves the state as it is and issues no
  network request; this holds for each provider and whatever the network would answer.
\<close>

theorem fetchModels_cached:
  assumes "trim apiKey \<noteq> []"
    and "fetchModels cmp env s provider apiKey options = (r, s', requests)"
    and "r_success r"
    and "map_of (cache s') (cacheKey provider apiKey) = Some entry"
    and "map_of (cache s'') (cacheKey provider apiKey) = Some entry"
    and "env_now env' - ce_timestamp entry < CACHE_TTL"
    and "\<not> forceRefresh options'"
  shows "fetchModels cmp' env' s'' provider apiKey options'
         = (r\<lparr>r_cachedAt := Some (ce_timestamp entry)\<rparr>, s'', [])
       \<and> r_models (fst (fetchModels cmp' env' s'' provider apiKey options')) = r_models r
       \<and> r_source (fst (fetchModels cmp' env' s'' provider apiKey options')) = r_source r
       \<and> snd (snd (fetchModels cmp' env' s'' provider apiKey options')) = []"
proof -
  from fetchModels_cache_after [OF assms(1,2,3)] assms(3,4)
  have r: "ce_models entry = r_models r" "r_source r = Some (ce_source entry)"
    "r_success r" "r_error r = None"
    by auto
  have "freshCacheEntry s'' (cacheKey provider apiKey) options' (env_now env') = Some entry"
    using assms(5-7) by (simp add: freshCacheEntry_young)
  from fetchModels_hit [OF assms(1) this, of cmp'] r show ?thesis
    by simp
qed

theorem fetchModels_cached_witness:
  "fetchModels caseInsensitiveCompare exampleLaterEnv (fst (snd exampleFirstCall)) OpenAI
     ''sk-abc'' None
   = ((fst exampleFirstCall)\<lparr>r_cachedAt := Some 5200\<rparr>, fst (snd exampleFirstCall), [])
   \<and> r_source (fst exampleFirstCall) = Some Api"
proof -
  from exampleFirstCall_value obtain R where first: "exampleFirstCall =
     (\<lparr>r_success = True, r_models = R, r_error = None, r_cachedAt = None,
       r_source = Some Api\<rparr>,
      exampleLoaded\<lparr>cache := [(cacheKey OpenAI ''sk-abc'',
         \<lparr>ce_models = R, ce_timestamp = 5200, ce_source = Api\<rparr>)]\<rparr>,
      [CatalogGet None, ProviderList OpenAI])"
    by blast
  let ?entry = "\<lparr>ce_models = R, ce_timestamp = 5200, ce_source = Api\<rparr>"
  let ?s' = "exampleLoaded\<lparr>cache := [(cacheKey OpenAI ''sk-abc'', ?entry)]\<rparr>"
  have stored: "map_of (cache ?s') (cacheKey OpenAI ''sk-abc'') = Some ?entry"
    by simp
  have young: "env_now exampleLaterEnv - ce_timestamp ?entry < CACHE_TTL"
    by (simp add: exampleLaterEnv_def CACHE_TTL_def)
  have noforce: "\<not> forceRefresh None"
    by (simp add: forceRefresh_def)
  have ok: "r_success \<lparr>r_success = True, r_models = R, r_error = None, r_cachedAt = None,
       r_source = Some Api\<rparr>"
    by simp
  from fetchModels_cached [OF example_key first [unfolded exampleFirstCall_def] ok stored stored
      young noforce, of caseInsensitiveCompare]
  show ?thesis
    by (simp add: first)
qed

end
